theory Spec2Isabelle
  imports Complex_Main "HOL-Library.Word"
begin

section \<open>Decimal numbers (github.com/shopspring/decimal)\<close>

text \<open>
  The exchange code computes with \<open>decimal.Decimal\<close>: an arbitrary-precision integer
  \<open>value\<close> and an exponent \<open>exp\<close>, denoting \<open>value * 10 ^ exp\<close>. The library is an
  external dependency; the operations the exchange code calls are written out here:
  \<open>New\<close>, \<open>Mul\<close>, \<open>Truncate\<close>, \<open>IntPart\<close> and \<open>String\<close>.
\<close>

record Decimal =
  dvalue :: int
  dexp :: int

definition decimal_New :: "int \<Rightarrow> int \<Rightarrow> Decimal" where
  "decimal_New v e = \<lparr>dvalue = v, dexp = e\<rparr>"

text \<open>The rational number a decimal denotes.\<close>

definition decimal_rat :: "Decimal \<Rightarrow> rat" where
  "decimal_rat d = of_int (dvalue d) * 10 powi dexp d"

text \<open>\<open>big.Int.Quo\<close>: the quotient truncated towards zero.\<close>

definition Quo :: "int \<Rightarrow> int \<Rightarrow> int" where
  "Quo a b = sgn a * sgn b * (\<bar>a\<bar> div \<bar>b\<bar>)"

text \<open>
  \<open>rescale\<close> moves a decimal to another exponent: digits are dropped (towards zero) when
  the exponent grows, zeros are appended when it shrinks.
\<close>

definition rescale :: "Decimal \<Rightarrow> int \<Rightarrow> Decimal" where
  "rescale d e =
     (if e > dexp d then \<lparr>dvalue = Quo (dvalue d) (10 ^ nat (e - dexp d)), dexp = e\<rparr>
      else if e < dexp d then \<lparr>dvalue = dvalue d * 10 ^ nat (dexp d - e), dexp = e\<rparr>
      else \<lparr>dvalue = dvalue d, dexp = e\<rparr>)"

definition decimal_Mul :: "Decimal \<Rightarrow> Decimal \<Rightarrow> Decimal" where
  "decimal_Mul d d2 = \<lparr>dvalue = dvalue d * dvalue d2, dexp = dexp d + dexp d2\<rparr>"

definition decimal_Truncate :: "Decimal \<Rightarrow> int \<Rightarrow> Decimal" where
  "decimal_Truncate d precision =
     (if precision \<ge> 0 \<and> - precision > dexp d then rescale d (- precision) else d)"

text \<open>
  \<open>IntPart\<close> rescales to exponent 0 and converts the big integer with \<open>Int64()\<close>, which
  keeps the low 64 bits in two's complement when the number does not fit.
\<close>

definition big_Int64 :: "int \<Rightarrow> int" where
  "big_Int64 x = sint (word_of_int x :: 64 word)"

definition decimal_IntPart :: "Decimal \<Rightarrow> int" where
  "decimal_IntPart d = big_Int64 (dvalue (rescale d 0))"

section \<open>Configuration (src/config/config.go)\<close>

text \<open>
  Durations are in nanoseconds (\<open>time.Duration\<close>), the start time is a number. Fields
  that carry the same Go name in different structs are prefixed with the struct's name.
\<close>

record Teller =
  MaxBoundAddresses :: int
  BindEnabled :: bool

record SkyRPC =
  SkyRPC_Address :: string

record BtcRPC =
  BtcRPC_Server :: string
  User :: string
  Pass :: string
  Cert :: string

record EthRPC =
  EthRPC_Server :: string
  Port :: string

record BtcScanner =
  BtcScanner_ScanPeriod :: int
  BtcScanner_InitialScanHeight :: int
  BtcScanner_ConfirmationsRequired :: int
  BtcScanner_Enabled :: bool

record EthScanner =
  EthScanner_ScanPeriod :: int
  EthScanner_InitialScanHeight :: int
  EthScanner_ConfirmationsRequired :: int
  EthScanner_Enabled :: bool

record SkyScanner =
  SkyScanner_ScanPeriod :: int
  SkyScanner_InitialScanHeight :: int
  SkyScanner_ConfirmationsRequired :: int
  SkyScanner_Enabled :: bool

record C2CX =
  Key :: string
  Secret :: string
  RequestFailureWait :: int
  RatelimitWait :: int
  CheckOrderWait :: int
  BtcMinimumVolume :: Decimal

record SkyExchanger =
  SkyBtcExchangeRate :: string
  SkyEthExchangeRate :: string
  SkySkyExchangeRate :: string
  MaxDecimals :: int
  TxConfirmationCheckWait :: int
  Wallet :: string
  SendEnabled :: bool
  BuyMethod :: string
  C2CX :: C2CX

record Web =
  HTTPAddr :: string
  HTTPSAddr :: string
  StaticDir :: string
  AutoTLSHost :: string
  TLSCert :: string
  TLSKey :: string
  ThrottleMax :: int
  ThrottleDuration :: int
  BehindProxy :: bool
  CORSAllowed :: "string list"

record AdminPanel =
  Host :: string

record Dummy =
  Scanner :: bool
  Sender :: bool
  Dummy_HTTPAddr :: string

record Config =
  Debug :: bool
  LogFilename :: string
  DBFilename :: string
  PidFilename :: string
  GitCommit :: string
  StartTime :: int
  BtcAddresses :: string
  EthAddresses :: string
  SkyAddresses :: string
  Teller :: Teller
  SkyRPC :: SkyRPC
  BtcRPC :: BtcRPC
  EthRPC :: EthRPC
  BtcScanner :: BtcScanner
  EthScanner :: EthScanner
  SkyScanner :: SkyScanner
  SkyExchanger :: SkyExchanger
  Web :: Web
  AdminPanel :: AdminPanel
  Dummy :: Dummy

definition redacted :: string where
  "redacted = ''<redacted>''"

text \<open>
  \<open>Config.Redacted\<close> works on its own copy of the configuration (a value receiver) and
  overwrites the four credentials one after the other.
\<close>

definition Redacted :: "Config \<Rightarrow> Config" where
  "Redacted c =
     (let c1 = (if User (BtcRPC c) \<noteq> [] then c\<lparr>BtcRPC := (BtcRPC c)\<lparr>User := redacted\<rparr>\<rparr> else c);
          c2 = (if Pass (BtcRPC c1) \<noteq> [] then c1\<lparr>BtcRPC := (BtcRPC c1)\<lparr>Pass := redacted\<rparr>\<rparr> else c1);
          c3 = (if Key (C2CX (SkyExchanger c2)) \<noteq> []
                then c2\<lparr>SkyExchanger := (SkyExchanger c2)\<lparr>C2CX := (C2CX (SkyExchanger c2))\<lparr>Key := redacted\<rparr>\<rparr>\<rparr>
                else c2);
          c4 = (if Secret (C2CX (SkyExchanger c3)) \<noteq> []
                then c3\<lparr>SkyExchanger := (SkyExchanger c3)\<lparr>C2CX := (C2CX (SkyExchanger c3))\<lparr>Secret := redacted\<rparr>\<rparr>\<rparr>
                else c3)
      in c4)"

text \<open>What the startup code hands to the logger (cmd/teller/teller.go, \<open>run\<close>).\<close>

definition logged_config :: "Config \<Rightarrow> Config" where
  "logged_config cfg = Redacted cfg"

section \<open>Errors\<close>

text \<open>
  One type for every Go \<open>error\<close> value the exchange code tells apart. The first three
  constructors are the dynamic types of the type switch in \<open>processWaitDecideDeposit\<close>:
  \<open>c2cx.APIError\<close> with its \<open>Message\<close>, any other \<open>c2cx.Error\<close>, and \<open>net.Error\<close>.
  The package-level error variables follow; \<open>NumError\<close> is what \<open>strconv.Atoi\<close>
  returns (input and reason), \<open>OtherError\<close> is an error made on the spot with
  \<open>errors.New\<close> or returned by another package.
\<close>

datatype error =
    APIError string
  | C2CXError string
  | NetError string
  | ErrFatalOrderStatus
  | errCompletedAmountNegative
  | errQuit
  | ErrDepositStatusInvalid
  | ErrUnsupportedCoinType
  | ErrNoBoundAddress
  | ErrEmptySendAmount
  | NumError string string
  | OtherError string

section \<open>Text and numbers (Go standard library)\<close>

text \<open>\<open>fmt.Sprint\<close> of an integer: the decimal digits, with a minus sign when negative.\<close>

fun nat_digits :: "nat \<Rightarrow> string" where
  "nat_digits n =
     (if n < 10 then [''0123456789'' ! n]
      else nat_digits (n div 10) @ [''0123456789'' ! (n mod 10)])"

declare nat_digits.simps [simp del]

definition Sprint_int :: "int \<Rightarrow> string" where
  "Sprint_int i = (if i < 0 then CHR ''-'' # nat_digits (nat (- i)) else nat_digits (nat i))"

text \<open>
  \<open>strconv.Atoi\<close>: an optional sign, then at least one decimal digit and nothing else;
  a number outside the 64-bit \<open>int\<close> is a range error.
\<close>

definition is_digit :: "char \<Rightarrow> bool" where
  "is_digit c = (c \<in> set ''0123456789'')"

definition digit_value :: "char \<Rightarrow> int" where
  "digit_value c = int (of_char c) - 48"

definition digits_value :: "string \<Rightarrow> int" where
  "digits_value ds = foldl (\<lambda>n ch. n * 10 + digit_value ch) 0 ds"

definition Atoi :: "string \<Rightarrow> error + int" where
  "Atoi s =
     (let neg = (s \<noteq> [] \<and> hd s = CHR ''-'');
          ds = (if s \<noteq> [] \<and> (hd s = CHR ''-'' \<or> hd s = CHR ''+'') then tl s else s)
      in if ds = [] \<or> \<not> list_all is_digit ds then Inl (NumError s ''invalid syntax'')
         else (let n = digits_value ds; v = (if neg then - n else n)
               in if v < - (2 ^ 63) \<or> 2 ^ 63 \<le> v then Inl (NumError s ''value out of range'')
                  else Inr v))"

text \<open>\<open>strings.HasPrefix\<close>.\<close>

definition HasPrefix :: "string \<Rightarrow> string \<Rightarrow> bool" where
  "HasPrefix s pre = (take (length pre) s = pre)"

text \<open>
  \<open>Decimal.String\<close>: the digits of the value with the decimal point placed by the
  exponent, trailing zeros of the fraction removed.
\<close>

definition trim_zeros :: "string \<Rightarrow> string" where
  "trim_zeros f = rev (dropWhile (\<lambda>c. c = CHR ''0'') (rev f))"

definition decimal_String :: "Decimal \<Rightarrow> string" where
  "decimal_String d =
     (if 0 \<le> dexp d then Sprint_int (dvalue (rescale d 0))
      else
        (let str = nat_digits (nat \<bar>dvalue d\<bar>);
             k = nat (- dexp d);
             intPart = (if length str > k then take (length str - k) str else ''0'');
             fractionalPart = trim_zeros
               (if length str > k then drop (length str - k) str
                else replicate (k - length str) (CHR ''0'') @ str);
             number = (if fractionalPart \<noteq> [] then intPart @ ''.'' @ fractionalPart else intPart)
         in if dvalue d < 0 then CHR ''-'' # number else number))"

section \<open>The exchange's orders (github.com/skycoin/exchange-api, package c2cx)\<close>

text \<open>
  The client library is an external dependency. Of its order statuses the exchange code
  names the six transitory ones, \<open>StatusCompleted\<close> and the query value \<open>StatusAll\<close>;
  \<open>StatusOther\<close> stands for every other status code (cancelled, expired and so on).
  Of an order the code reads the identifier, the customer identifier (a pointer, so it
  may be absent), the status, the completed amount and the average price.
\<close>

datatype TradePair = BtcSky | OtherPair string

datatype OrderStatus =
    StatusAll
  | StatusPartial
  | StatusPending
  | StatusActive
  | StatusSuspended
  | StatusTriggerPending
  | StatusStopLossPending
  | StatusCompleted
  | StatusOther int

record c2cx_Order =
  Order_OrderID :: int
  Order_CID :: "string option"
  Order_Status :: OrderStatus
  Order_CompletedAmount :: Decimal
  Order_AvgPrice :: Decimal

definition c2cx_Order_zero :: c2cx_Order where
  "c2cx_Order_zero = \<lparr>Order_OrderID = 0, Order_CID = None, Order_Status = StatusAll,
     Order_CompletedAmount = decimal_New 0 0, Order_AvgPrice = decimal_New 0 0\<rparr>"

section \<open>Deposits\<close>

text \<open>
  Modelled from the spec: the declarations of \<open>DepositInfo\<close>, of its statuses and of the
  unit constants are not among the sources; the fields are the attributes the
  specification lists (section 3) together with \<open>DepositValue\<close>, which the passthrough
  code reads. \<open>StatusWaitDeposit\<close> and \<open>StatusUnknown\<close> are the two statuses the comment
  on \<open>ErrDepositStatusInvalid\<close> names as never processed.
\<close>

datatype Status =
    StatusWaitDeposit
  | StatusWaitSend
  | StatusWaitConfirm
  | StatusDone
  | StatusWaitDecide
  | StatusWaitPassthrough
  | StatusWaitPassthroughOrderComplete
  | StatusUnknown

record Deposit =
  Deposit_CoinType :: string
  Address :: string
  Value :: int
  Height :: int
  Tx :: string
  N :: int

record PassthroughOrder =
  CustomerID :: string
  OrderID :: string
  CompletedAmount :: string
  Price :: string
  PassthroughOrder_Status :: string
  Final :: bool
  Original :: c2cx_Order

record PassthroughData =
  ExchangeName :: string
  SkyBought :: int
  DepositValueSpent :: int
  RequestedAmount :: string
  Order :: PassthroughOrder

record DepositInfo =
  Seq :: nat
  UpdatedAt :: int
  Status :: Status
  CoinType :: string
  SkyAddress :: string
  DepositAddress :: string
  DepositID :: string
  Txid :: string
  ConversionRate :: string
  DepositValue :: int
  SkySent :: int
  Passthrough :: PassthroughData
  Error :: string
  Deposit :: Deposit

text \<open>The zero value of the struct, which Go code returns beside an error.\<close>

definition DepositInfo_zero :: DepositInfo where
  "DepositInfo_zero =
     \<lparr>Seq = 0, UpdatedAt = 0, Status = StatusUnknown, CoinType = [], SkyAddress = [],
      DepositAddress = [], DepositID = [], Txid = [], ConversionRate = [], DepositValue = 0,
      SkySent = 0,
      Passthrough = \<lparr>ExchangeName = [], SkyBought = 0, DepositValueSpent = 0, RequestedAmount = [],
        Order = \<lparr>CustomerID = [], OrderID = [], CompletedAmount = [], Price = [],
          PassthroughOrder_Status = [], Final = False, Original = c2cx_Order_zero\<rparr>\<rparr>,
      Error = [],
      Deposit = \<lparr>Deposit_CoinType = [], Address = [], Value = 0, Height = 0, Tx = [], N = 0\<rparr>\<rparr>"

definition CoinTypeBTC :: string where
  "CoinTypeBTC = ''BTC''"

definition PassthroughExchangeC2CX :: string where
  "PassthroughExchangeC2CX = ''c2cx''"

definition SatoshisPerBTC :: int where
  "SatoshisPerBTC = 100000000"

definition SatoshiExponent :: int where
  "SatoshiExponent = 8"

definition droplet_Multiplier :: int where
  "droplet_Multiplier = 1000000"

section \<open>The store\<close>

text \<open>
  Modelled from the spec: the store's implementation is not among the sources (the
  exchange code only sees the \<open>Storer\<close> interface). The model keeps the \<open>deposit_info\<close>
  bucket as a list of pairs, the bindings by deposit address, the sequence counter and a
  clock.
  \<open>UpdateDepositInfo\<close> follows section 4.1 of the specification: it loads the record,
  applies the mutator, validates the status transition against the state machine of
  section 4.2, stamps \<open>UpdatedAt\<close> and persists; an illegal transition is rejected without
  writing. Beside an error the store returns the zero \<open>DepositInfo\<close>.
\<close>

record BoundAddress =
  Bound_SkyAddress :: string
  Bound_Address :: string
  Bound_CoinType :: string
  Bound_BuyMethod :: string

record Store =
  deposit_info :: "(string \<times> DepositInfo) list"
  bind_address :: "(string \<times> BoundAddress) list"
  deposit_info_seq :: nat
  clock :: int

definition valid_transition :: "Status \<Rightarrow> Status \<Rightarrow> bool" where
  "valid_transition a b =
     (a = b
      \<or> (a = StatusWaitDecide \<and> b = StatusWaitPassthrough)
      \<or> (a = StatusWaitPassthrough \<and> b = StatusWaitPassthroughOrderComplete)
      \<or> (a = StatusWaitPassthroughOrderComplete \<and> b = StatusWaitSend)
      \<or> (a = StatusWaitSend \<and> b = StatusWaitConfirm)
      \<or> (a = StatusWaitConfirm \<and> b = StatusDone))"

definition ErrNoDepositInfo :: error where
  "ErrNoDepositInfo = OtherError ''deposit info not found''"

definition ErrInvalidTransition :: error where
  "ErrInvalidTransition = OtherError ''invalid transition''"

fun alist_put :: "string \<Rightarrow> 'v \<Rightarrow> (string \<times> 'v) list \<Rightarrow> (string \<times> 'v) list" where
  "alist_put k v [] = [(k, v)]"
| "alist_put k v ((k', v') # kvs) =
     (if k = k' then (k, v) # kvs else (k', v') # alist_put k v kvs)"

definition UpdateDepositInfo ::
  "string \<Rightarrow> (DepositInfo \<Rightarrow> DepositInfo) \<Rightarrow> Store \<Rightarrow> (DepositInfo \<times> error option) \<times> Store" where
  "UpdateDepositInfo depositID update s =
     (case map_of (deposit_info s) depositID of
        None \<Rightarrow> ((DepositInfo_zero, Some ErrNoDepositInfo), s)
      | Some dpi \<Rightarrow>
          (let dpiNew = update dpi
           in if \<not> valid_transition (Status dpi) (Status dpiNew)
              then ((DepositInfo_zero, Some ErrInvalidTransition), s)
              else (let stamped = dpiNew\<lparr>UpdatedAt := clock s\<rparr>
                    in ((stamped, None),
                        s\<lparr>deposit_info := alist_put depositID stamped (deposit_info s),
                          clock := clock s + 1\<rparr>))))"

definition GetDepositInfoArray :: "(DepositInfo \<Rightarrow> bool) \<Rightarrow> Store \<Rightarrow> error + DepositInfo list" where
  "GetDepositInfoArray flt s = Inr (filter flt (map snd (deposit_info s)))"

section \<open>The passthrough processor (package exchange, passthrough file)\<close>

text \<open>
  What the processor is given and does not change: its configuration, the exchange
  client, and the pieces of other packages whose code is not among the sources
  (\<open>DepositInfo.ValidateForStatus\<close>, the price precision of the BTC/SKY rules table,
  the text of an order status, the decimal parser). The exchange client answers
  depending on the request and on how many requests were made before, so that an order
  can change between two polls.
\<close>

record Env =
  cfg :: SkyExchanger
  ValidateForStatus :: "DepositInfo \<Rightarrow> error option"
  GetOrderByStatus :: "nat \<Rightarrow> TradePair \<Rightarrow> OrderStatus \<Rightarrow> error + c2cx_Order list"
  GetOrderInfo :: "nat \<Rightarrow> TradePair \<Rightarrow> int \<Rightarrow> error + c2cx_Order"
  MarketBuy :: "nat \<Rightarrow> TradePair \<Rightarrow> Decimal \<Rightarrow> string option \<Rightarrow> error + int"
  PricePrecision :: int
  OrderStatus_String :: "OrderStatus \<Rightarrow> string"
  decimal_NewFromString :: "string \<Rightarrow> error + Decimal"

text \<open>
  What changes while the processor runs: the store; \<open>ticks\<close>, the number of times the
  quit channel can still be looked at before it is found closed (every \<open>select\<close> on
  \<open>p.quit\<close> uses one up, and at zero the quit branch is taken); \<open>calls\<close>, the number of
  requests made to the exchange; \<open>timers\<close>, the durations handed to \<open>time.After\<close> in
  order; \<open>pstatus\<close>, the last error recorded by \<open>setStatus\<close>; and the deposits sent to
  the \<open>internalDeposits\<close> channel in order. Where a \<open>select\<close> finds the quit channel closed
  and a send ready at the same time, Go picks one of the two at random: \<open>picks\<close> is the
  sequence of these choices (\<open>True\<close> for the quit branch) and \<open>picked\<close> the number of
  choices made so far.
\<close>

record World =
  store :: Store
  ticks :: nat
  calls :: nat
  timers :: "int list"
  pstatus :: "error option"
  internalDeposits :: "DepositInfo list"
  picks :: "nat \<Rightarrow> bool"
  picked :: nat

definition second :: int where
  "second = 1000000000"

definition checkOrderWait :: int where
  "checkOrderWait = second * 2"

subsection \<open>Amounts\<close>

definition calculateRequestedAmount :: "Env \<Rightarrow> int \<Rightarrow> Decimal" where
  "calculateRequestedAmount env depositValue =
     (let amount = decimal_New depositValue (- SatoshiExponent);
          amount = decimal_Truncate amount (PricePrecision env)
      in amount)"

definition calculateSkyBought :: "c2cx_Order \<Rightarrow> error + int" where
  "calculateSkyBought order =
     (let skyBought = decimal_IntPart
            (decimal_Mul (Order_CompletedAmount order) (decimal_New droplet_Multiplier 0))
      in if skyBought < 0 then Inl errCompletedAmountNegative else Inr skyBought)"

definition calculateBtcSpent :: "c2cx_Order \<Rightarrow> int" where
  "calculateBtcSpent order =
     (let btcSpentDec = decimal_Mul (Order_CompletedAmount order) (Order_AvgPrice order)
      in decimal_IntPart (decimal_Mul btcSpentDec (decimal_New SatoshisPerBTC 0)))"

subsection \<open>Placing an order\<close>

definition placeOrder :: "Env \<Rightarrow> DepositInfo \<Rightarrow> World \<Rightarrow> (error + int) \<times> World" where
  "placeOrder env di w =
     (if CoinType di \<noteq> CoinTypeBTC then (Inl ErrUnsupportedCoinType, w)
      else if CustomerID (Order (Passthrough di)) = []
      then (Inl (OtherError ''CustomerID is not set on DepositInfo.Passthrough''), w)
      else (case decimal_NewFromString env (RequestedAmount (Passthrough di)) of
              Inl err \<Rightarrow> (Inl err, w)
            | Inr amount \<Rightarrow>
                (MarketBuy env (calls w) BtcSky amount (Some (CustomerID (Order (Passthrough di)))),
                 w\<lparr>calls := Suc (calls w)\<rparr>)))"

subsection \<open>Waiting for an order to complete\<close>

definition transitory :: "OrderStatus \<Rightarrow> bool" where
  "transitory st =
     (st = StatusPartial \<or> st = StatusPending \<or> st = StatusActive \<or> st = StatusSuspended
      \<or> st = StatusTriggerPending \<or> st = StatusStopLossPending)"

definition order_completed :: "Env \<Rightarrow> c2cx_Order \<Rightarrow> DepositInfo \<Rightarrow> DepositInfo" where
  "order_completed env order di =
     (let skyBought = (case calculateSkyBought order of Inl err \<Rightarrow> 0 | Inr v \<Rightarrow> v);
          btcSpent = calculateBtcSpent order
      in di\<lparr>Passthrough := (Passthrough di)
            \<lparr>SkyBought := skyBought,
             DepositValueSpent := btcSpent,
             Order := (Order (Passthrough di))
               \<lparr>PassthroughOrder_Status := OrderStatus_String env (Order_Status order),
                Final := True,
                Original := order,
                CompletedAmount := decimal_String (Order_CompletedAmount order),
                Price := decimal_String (Order_AvgPrice order)\<rparr>\<rparr>\<rparr>)"

definition order_fatal :: "Env \<Rightarrow> c2cx_Order \<Rightarrow> DepositInfo \<Rightarrow> DepositInfo" where
  "order_fatal env order di =
     di\<lparr>Passthrough := (Passthrough di)
        \<lparr>Order := (Order (Passthrough di))
           \<lparr>PassthroughOrder_Status := OrderStatus_String env (Order_Status order),
            Final := True,
            Original := order\<rparr>\<rparr>\<rparr>"

definition errOrderIDMismatch :: error where
  "errOrderIDMismatch = OtherError ''order.OrderID != di.Passthrough.OrderID unexpectedly''"

definition errCIDMismatch :: error where
  "errCIDMismatch = OtherError ''order.CID != di.Passthrough.Order.CustomerID unexpectedly''"

text \<open>
  What the loop does with one answer of \<open>GetOrderInfo\<close>: \<open>None\<close> means the status has
  not finalized and the loop goes round again.
\<close>

definition checkOrder :: "Env \<Rightarrow> DepositInfo \<Rightarrow> c2cx_Order \<Rightarrow> (DepositInfo \<times> error option) option" where
  "checkOrder env di order =
     (if Sprint_int (Order_OrderID order) \<noteq> OrderID (Order (Passthrough di))
      then Some (di, Some errOrderIDMismatch)
      else if Order_CID order = None \<or> the (Order_CID order) \<noteq> CustomerID (Order (Passthrough di))
      then Some (di, Some errCIDMismatch)
      else if transitory (Order_Status order) then None
      else if Order_Status order = StatusCompleted then Some (order_completed env order di, None)
      else Some (order_fatal env order di, Some ErrFatalOrderStatus))"

fun waitCompletedLoop ::
  "Env \<Rightarrow> int \<Rightarrow> DepositInfo \<Rightarrow> nat \<Rightarrow> World \<Rightarrow> (DepositInfo \<times> error option) \<times> World" where
  "waitCompletedLoop env orderID di 0 w =
     ((di, Some errQuit), w\<lparr>timers := timers w @ [checkOrderWait], ticks := 0\<rparr>)"
| "waitCompletedLoop env orderID di (Suc n) w =
     (let w1 = w\<lparr>timers := timers w @ [checkOrderWait], ticks := n, calls := Suc (calls w)\<rparr>
      in case GetOrderInfo env (calls w) BtcSky orderID of
           Inl err \<Rightarrow> ((di, Some err), w1)
         | Inr order \<Rightarrow>
             (case checkOrder env di order of
                None \<Rightarrow> waitCompletedLoop env orderID di n w1
              | Some r \<Rightarrow> (r, w1)))"

definition waitOrderComplete :: "Env \<Rightarrow> DepositInfo \<Rightarrow> World \<Rightarrow> (DepositInfo \<times> error option) \<times> World" where
  "waitOrderComplete env di w =
     (if OrderID (Order (Passthrough di)) = []
      then ((di, Some (OtherError ''DepositInfo.Passthrough.OrderID is not set'')), w)
      else (case Atoi (OrderID (Order (Passthrough di))) of
              Inl err \<Rightarrow> ((di, Some err), w)
            | Inr orderID \<Rightarrow> waitCompletedLoop env orderID di (ticks w) w))"

subsection \<open>One step of a deposit\<close>

text \<open>The three mutators handed to \<open>UpdateDepositInfo\<close>.\<close>

definition set_WaitPassthrough :: "Env \<Rightarrow> DepositInfo \<Rightarrow> DepositInfo" where
  "set_WaitPassthrough env di =
     di\<lparr>Status := StatusWaitPassthrough,
        Passthrough := (Passthrough di)
          \<lparr>ExchangeName := PassthroughExchangeC2CX,
           RequestedAmount := decimal_String (calculateRequestedAmount env (DepositValue di)),
           Order := (Order (Passthrough di))\<lparr>CustomerID := DepositID di\<rparr>\<rparr>\<rparr>"

definition set_OrderPlaced :: "int \<Rightarrow> DepositInfo \<Rightarrow> DepositInfo" where
  "set_OrderPlaced orderID di =
     di\<lparr>Status := StatusWaitPassthroughOrderComplete,
        Passthrough := (Passthrough di)
          \<lparr>Order := (Order (Passthrough di))\<lparr>OrderID := Sprint_int orderID\<rparr>\<rparr>\<rparr>"

definition set_WaitSend :: "DepositInfo \<Rightarrow> DepositInfo \<Rightarrow> DepositInfo" where
  "set_WaitSend newDepositInfo di = newDepositInfo\<lparr>Status := StatusWaitSend\<rparr>"

definition update_deposit ::
  "string \<Rightarrow> (DepositInfo \<Rightarrow> DepositInfo) \<Rightarrow> World \<Rightarrow> (DepositInfo \<times> error option) \<times> World" where
  "update_deposit depositID update w =
     (case UpdateDepositInfo depositID update (store w) of
        (r, s) \<Rightarrow> (r, w\<lparr>store := s\<rparr>))"

definition handleDepositInfoState ::
  "Env \<Rightarrow> DepositInfo \<Rightarrow> World \<Rightarrow> (DepositInfo \<times> error option) \<times> World" where
  "handleDepositInfoState env di w =
     (case ValidateForStatus env di of
        Some err \<Rightarrow> ((di, Some err), w)
      | None \<Rightarrow>
          if CoinType di \<noteq> CoinTypeBTC then ((di, Some ErrUnsupportedCoinType), w)
          else (case Status di of
              StatusWaitDecide \<Rightarrow> update_deposit (DepositID di) (set_WaitPassthrough env) w
            | StatusWaitPassthrough \<Rightarrow>
                (case placeOrder env di w of
                   (Inl err, w1) \<Rightarrow> ((di, Some err), w1)
                 | (Inr orderID, w1) \<Rightarrow> update_deposit (DepositID di) (set_OrderPlaced orderID) w1)
            | StatusWaitPassthroughOrderComplete \<Rightarrow>
                (case waitOrderComplete env di w of
                   ((newDepositInfo, err), w1) \<Rightarrow>
                     if err = None \<or> err = Some ErrFatalOrderStatus
                     then update_deposit (DepositID di) (set_WaitSend newDepositInfo) w1
                     else ((di, err), w1))
            | _ \<Rightarrow> ((di, Some ErrDepositStatusInvalid), w)))"

subsection \<open>The retry loop\<close>

datatype action = retry | retryRatelimited | fail | quit | no_action

definition classify :: "error option \<Rightarrow> action" where
  "classify err =
     (case err of
        Some (APIError Message) \<Rightarrow>
          (let a = retry;
               a = (if HasPrefix Message ''limit value:'' then fail else a);
               a = (if Message = ''Too Many Requests'' then retryRatelimited else a)
           in a)
      | Some (C2CXError m) \<Rightarrow> retry
      | Some (NetError m) \<Rightarrow> retry
      | None \<Rightarrow> no_action
      | Some errQuit \<Rightarrow> quit
      | Some e \<Rightarrow> fail)"

text \<open>
  The \<open>select\<close> between a timer and the quit channel: the timer is armed, and either the
  quit channel is found closed or the wait passes.
\<close>

definition wait_or_quit :: "int \<Rightarrow> World \<Rightarrow> bool \<times> World" where
  "wait_or_quit d w =
     (case ticks w of
        0 \<Rightarrow> (True, w\<lparr>timers := timers w @ [d]\<rparr>)
      | Suc n \<Rightarrow> (False, w\<lparr>timers := timers w @ [d], ticks := n\<rparr>))"

text \<open>
  What one round of the loop does after the quit channel was looked at: one call of
  \<open>handleDepositInfoState\<close>, \<open>setStatus\<close>, the classification of the error and the
  action. \<open>Inl\<close> is a return from \<open>processWaitDecideDeposit\<close>, \<open>Inr\<close> the deposit the
  next round starts with.
\<close>

definition processRound ::
  "Env \<Rightarrow> DepositInfo \<Rightarrow> World \<Rightarrow> ((DepositInfo \<times> error option) + DepositInfo) \<times> World" where
  "processRound env di0 w0 =
     (case handleDepositInfoState env di0 w0 of
        ((di, err), w1) \<Rightarrow>
          (let w2 = w1\<lparr>pstatus := err\<rparr>;
               after = (\<lambda>w. if Status di = StatusWaitSend then (Inl (di, None), w) else (Inr di, w))
           in case classify err of
                retry \<Rightarrow>
                  (case wait_or_quit (RequestFailureWait (C2CX (cfg env))) w2 of
                     (True, w3) \<Rightarrow> (Inl (di, None), w3)
                   | (False, w3) \<Rightarrow> after w3)
              | retryRatelimited \<Rightarrow>
                  (case wait_or_quit (RatelimitWait (C2CX (cfg env))) w2 of
                     (True, w3) \<Rightarrow> (Inl (di, None), w3)
                   | (False, w3) \<Rightarrow> after w3)
              | fail \<Rightarrow> (Inl (di, err), w2)
              | quit \<Rightarrow> (Inl (di, None), w2)
              | no_action \<Rightarrow> after w2))"

text \<open>
  \<open>processWaitDecideDeposit\<close>: every round looks at the quit channel first. The loop
  ends because every round uses up one look at the quit channel and none gives one back.
\<close>

function processWaitDecideDeposit ::
  "Env \<Rightarrow> DepositInfo \<Rightarrow> World \<Rightarrow> (DepositInfo \<times> error option) \<times> World" where
  "processWaitDecideDeposit env di w =
     (case ticks w of
        0 \<Rightarrow> ((di, None), w)
      | Suc n \<Rightarrow>
          (case processRound env di (w\<lparr>ticks := n\<rparr>) of
             (Inl r, w') \<Rightarrow> (r, w')
           | (Inr di', w') \<Rightarrow> processWaitDecideDeposit env di' w'))"
  by pat_completeness auto
termination
proof -
  have loop: "ticks (snd (waitCompletedLoop env orderID di n w)) \<le> n" for env orderID di n w
    by (induction n arbitrary: w) (auto simp: Let_def split: sum.splits option.splits intro: le_SucI)
  have wait: "ticks (snd (waitOrderComplete env di w)) \<le> ticks w" for env di w
    using loop [of env _ di "ticks w" w]
    by (auto simp: waitOrderComplete_def split: sum.splits)
  have upd: "ticks (snd (update_deposit k f w)) = ticks w" for k f w
    by (simp add: update_deposit_def split: prod.splits)
  have place: "ticks (snd (placeOrder env di w)) = ticks w" for env di w
    by (simp add: placeOrder_def split: sum.splits)
  have handle: "ticks (snd (handleDepositInfoState env di w)) \<le> ticks w" for env di w
  proof -
    have "ticks (snd (case placeOrder env di w of
                   (Inl err, w1) \<Rightarrow> ((di, Some err), w1)
                 | (Inr orderID, w1) \<Rightarrow> update_deposit (DepositID di) (set_OrderPlaced orderID) w1)) \<le> ticks w"
      using place [of env di w] by (auto split: prod.splits sum.splits simp: upd)
    moreover have "ticks (snd (case waitOrderComplete env di w of
                   ((newDepositInfo, err), w1) \<Rightarrow>
                     if err = None \<or> err = Some ErrFatalOrderStatus
                     then update_deposit (DepositID di) (set_WaitSend newDepositInfo) w1
                     else ((di, err), w1))) \<le> ticks w"
      using wait [of env di w] by (auto split: prod.splits simp: upd)
    ultimately show ?thesis
      by (simp add: handleDepositInfoState_def upd split: option.splits Status.splits)
  qed
  have woq: "ticks (snd (wait_or_quit d w)) \<le> ticks w" for d w
    by (simp add: wait_or_quit_def split: nat.splits)
  have round: "ticks (snd (processRound env di w)) \<le> ticks w" for env di w
  proof -
    obtain di1 err w1 where h: "handleDepositInfoState env di w = ((di1, err), w1)"
      by (metis surj_pair)
    have w1: "ticks w1 \<le> ticks w" using handle [of env di w] h by simp
    have w3: "ticks (snd (wait_or_quit d (w1\<lparr>pstatus := err\<rparr>))) \<le> ticks w" for d
      using woq [of d "w1\<lparr>pstatus := err\<rparr>"] w1 by simp
    show ?thesis
      using w1 w3 [of "RequestFailureWait (C2CX (cfg env))"] w3 [of "RatelimitWait (C2CX (cfg env))"]
      by (auto simp: processRound_def h Let_def split: prod.splits action.splits bool.splits)
  qed
  show ?thesis
  proof (relation "measure (\<lambda>(env, di, w). ticks w)")
    show "wf (measure (\<lambda>(env, di, w). ticks w))" by simp
  next
    fix env di w n x w' di'
    assume t: "ticks w = Suc n" and r: "(x, w') = processRound env di (w\<lparr>ticks := n\<rparr>)"
      and "x = Inr di'"
    from r have "w' = snd (processRound env di (w\<lparr>ticks := n\<rparr>))" by (metis snd_conv)
    then have "ticks w' \<le> n" using round [of env di "w\<lparr>ticks := n\<rparr>"] by simp
    then show "((env, di', w'), env, di, w) \<in> measure (\<lambda>(env, di, w). ticks w)"
      using t by simp
  qed
qed

declare processWaitDecideDeposit.simps [simp del]

subsection \<open>Recovering orders at startup\<close>

fun build_cidToDeposits ::
  "DepositInfo list \<Rightarrow> (string \<rightharpoonup> DepositInfo) \<Rightarrow> error + (string \<rightharpoonup> DepositInfo)" where
  "build_cidToDeposits [] m = Inr m"
| "build_cidToDeposits (di # dis) m =
     (if CustomerID (Order (Passthrough di)) = []
      then Inl (OtherError ''StatusWaitPassthrough deposit unexpectedly does not have CustomerID set'')
      else build_cidToDeposits dis (m(CustomerID (Order (Passthrough di)) \<mapsto> di)))"

fun recoverOrders ::
  "(string \<rightharpoonup> DepositInfo) \<Rightarrow> c2cx_Order list \<Rightarrow> DepositInfo list \<Rightarrow> World
     \<Rightarrow> (error + DepositInfo list) \<times> World" where
  "recoverOrders cidToDeposits [] updates w = (Inr updates, w)"
| "recoverOrders cidToDeposits (ord # orders) updates w =
     (case Order_CID ord of
        None \<Rightarrow> recoverOrders cidToDeposits orders updates w
      | Some cid \<Rightarrow>
          (case cidToDeposits cid of
             None \<Rightarrow> recoverOrders cidToDeposits orders updates w
           | Some di \<Rightarrow>
               (case update_deposit (DepositID di) (set_OrderPlaced (Order_OrderID ord)) w of
                  ((di', Some err), w1) \<Rightarrow> (Inl err, w1)
                | ((di', None), w1) \<Rightarrow> recoverOrders cidToDeposits orders (updates @ [di']) w1)))"

definition fixUnrecordedOrders :: "Env \<Rightarrow> World \<Rightarrow> (error + DepositInfo list) \<times> World" where
  "fixUnrecordedOrders env w =
     (case GetDepositInfoArray (\<lambda>di. Status di = StatusWaitPassthrough) (store w) of
        Inl err \<Rightarrow> (Inl err, w)
      | Inr deposits \<Rightarrow>
          if length deposits = 0 then (Inr [], w)
          else (case build_cidToDeposits deposits Map.empty of
                  Inl err \<Rightarrow> (Inl err, w)
                | Inr cidToDeposits \<Rightarrow>
                    (case GetOrderByStatus env (calls w) BtcSky StatusAll of
                       Inl err \<Rightarrow> (Inl err, w\<lparr>calls := Suc (calls w)\<rparr>)
                     | Inr orders \<Rightarrow>
                         recoverOrders cidToDeposits orders [] (w\<lparr>calls := Suc (calls w)\<rparr>))))"

text \<open>
  The queueing loops of \<open>Run\<close>: a \<open>select\<close> between the quit channel and the send of the
  deposit to \<open>internalDeposits\<close>. While the quit channel is open the deposit is sent. Once
  it is closed both branches can be ready, and the next of the \<open>picks\<close> decides: the quit
  branch ends the loop, the other one sends the deposit and the loop goes on.
\<close>

fun queueDeposits :: "DepositInfo list \<Rightarrow> World \<Rightarrow> World" where
  "queueDeposits [] w = w"
| "queueDeposits (di # dis) w =
     (case ticks w of
        0 \<Rightarrow>
          if picks w (picked w) then w\<lparr>picked := Suc (picked w)\<rparr>
          else queueDeposits dis
                 (w\<lparr>picked := Suc (picked w), internalDeposits := internalDeposits w @ [di]\<rparr>)
      | Suc n \<Rightarrow> queueDeposits dis (w\<lparr>ticks := n, internalDeposits := internalDeposits w @ [di]\<rparr>))"

text \<open>
  \<open>Run\<close> up to the point where the stored deposits are queued. The two goroutines it
  starts (\<open>runBuy\<close>, which takes deposits off the queue, and \<open>receiveDeposits\<close>) are not
  part of this function; the lists that are queued are read from the store before
  \<open>runBuy\<close> is started.
\<close>

definition Run :: "Env \<Rightarrow> World \<Rightarrow> error option \<times> World" where
  "Run env w =
     (case fixUnrecordedOrders env w of
        (Inl err, w1) \<Rightarrow> (Some err, w1)
      | (Inr recoveredDeposits, w1) \<Rightarrow>
          (case GetDepositInfoArray (\<lambda>di. Status di = StatusWaitPassthrough) (store w1) of
             Inl err \<Rightarrow> (Some err, w1)
           | Inr waitPassthroughDeposits \<Rightarrow>
               (case GetDepositInfoArray (\<lambda>di. Status di = StatusWaitPassthroughOrderComplete) (store w1) of
                  Inl err \<Rightarrow> (Some err, w1)
                | Inr waitPassthroughOrderCompleteDeposits \<Rightarrow>
                    (None, queueDeposits waitPassthroughDeposits
                             (queueDeposits waitPassthroughOrderCompleteDeposits w1)))))"

section \<open>Receiving deposits and sending coins\<close>

text \<open>
  Modelled from the spec: \<open>GetOrCreateDepositInfo\<close> of the store (section 4.1). The
  record of a deposit is kept under \<open>tx:n\<close>. An existing record is returned unchanged;
  otherwise the next \<open>Seq\<close> is allocated, the sky address is resolved from the binding of
  the deposit address (\<open>no bound address\<close> if there is none), the status is the initial
  one for the buy method of the binding, \<open>UpdatedAt\<close> is stamped and the rate is kept.
\<close>

definition TxN :: "Deposit \<Rightarrow> string" where
  "TxN dv = Tx dv @ '':'' @ Sprint_int (N dv)"

definition BuyMethodDirect :: string where
  "BuyMethodDirect = ''direct''"

definition BuyMethodPassthrough :: string where
  "BuyMethodPassthrough = ''passthrough''"

definition ErrInvalidBuyMethod :: error where
  "ErrInvalidBuyMethod = OtherError ''Invalid buy method''"

definition initial_status :: "string \<Rightarrow> error + Status" where
  "initial_status m =
     (if m = BuyMethodDirect then Inr StatusWaitSend
      else if m = BuyMethodPassthrough then Inr StatusWaitDecide
      else Inl ErrInvalidBuyMethod)"

definition GetOrCreateDepositInfo ::
  "Deposit \<Rightarrow> string \<Rightarrow> Store \<Rightarrow> (DepositInfo \<times> error option) \<times> Store" where
  "GetOrCreateDepositInfo dv rate s =
     (case map_of (deposit_info s) (TxN dv) of
        Some di \<Rightarrow> ((di, None), s)
      | None \<Rightarrow>
          (case map_of (bind_address s) (Address dv) of
             None \<Rightarrow> ((DepositInfo_zero, Some ErrNoBoundAddress), s)
           | Some b \<Rightarrow>
               (case initial_status (Bound_BuyMethod b) of
                  Inl err \<Rightarrow> ((DepositInfo_zero, Some err), s)
                | Inr st \<Rightarrow>
                    (let di = DepositInfo_zero
                           \<lparr>Seq := Suc (deposit_info_seq s), UpdatedAt := clock s, Status := st,
                            CoinType := Bound_CoinType b, SkyAddress := Bound_SkyAddress b,
                            DepositAddress := Address dv, DepositID := TxN dv,
                            ConversionRate := rate, DepositValue := Value dv, Deposit := dv\<rparr>
                     in ((di, None),
                         s\<lparr>deposit_info := deposit_info s @ [(TxN dv, di)],
                           deposit_info_seq := Suc (deposit_info_seq s),
                           clock := clock s + 1\<rparr>)))))"

text \<open>
  Modelled from the spec: the receiver's handling of one scanner event (section 4.3);
  its code is not among the sources, only a test of it is
  (\<open>TestSaveIncomingDepositCreateDepositFailed\<close>), which also fixes the text of the log
  entry. The receiver is given the store's \<open>GetOrCreateDepositInfo\<close> (the test runs it
  against a store that fails) and the configured rate of each source currency. It calls
  the store, posts the outcome on the event's acknowledgement channel, and either emits
  the record on \<open>Deposits()\<close> or logs the marker with the deposit. \<open>acks\<close> lists what was
  posted, one entry per event.
\<close>

record Receiver =
  receiver_store :: Store
  emitted :: "DepositInfo list"
  acks :: "(Deposit \<times> error option) list"
  receiver_log :: "(string \<times> Deposit) list"

definition saveIncomingDeposit_failed :: string where
  "saveIncomingDeposit_failed =
     ''saveIncomingDeposit failed. This deposit will not be reprocessed until teller is restarted.''"

definition receive_deposit ::
  "(Deposit \<Rightarrow> string \<Rightarrow> Store \<Rightarrow> (DepositInfo \<times> error option) \<times> Store)
     \<Rightarrow> (string \<Rightarrow> string) \<Rightarrow> Deposit \<Rightarrow> Receiver \<Rightarrow> Receiver" where
  "receive_deposit getOrCreate rates dv r =
     (case getOrCreate dv (rates (Deposit_CoinType dv)) (receiver_store r) of
        ((di, Some err), s) \<Rightarrow>
          r\<lparr>receiver_store := s, acks := acks r @ [(dv, Some err)],
            receiver_log := receiver_log r @ [(saveIncomingDeposit_failed, dv)]\<rparr>
      | ((di, None), s) \<Rightarrow>
          r\<lparr>receiver_store := s, acks := acks r @ [(dv, None)], emitted := emitted r @ [di]\<rparr>)"

fun receive_deposits ::
  "(Deposit \<Rightarrow> string \<Rightarrow> Store \<Rightarrow> (DepositInfo \<times> error option) \<times> Store)
     \<Rightarrow> (string \<Rightarrow> string) \<Rightarrow> Deposit list \<Rightarrow> Receiver \<Rightarrow> Receiver" where
  "receive_deposits getOrCreate rates [] r = r"
| "receive_deposits getOrCreate rates (dv # dvs) r =
     receive_deposits getOrCreate rates dvs (receive_deposit getOrCreate rates dv r)"

text \<open>
  Modelled from the spec: the two steps of the sender (section 4.5); its code is not
  among the sources. The wallet sender and the rate parser are given. The amount to send
  is the deposit value in BTC times the rate, cut off after \<open>max_decimals\<close> decimals, in
  droplets (direct path), or the amount bought (passthrough path); a zero amount is not
  sent. With \<open>send_enabled\<close> off the sender takes the deposit but never submits, so that
  it stays at \<open>StatusWaitSend\<close> (section 6). A successful submit records the amount and
  the \<open>Txid\<close> and moves the record to \<open>StatusWaitConfirm\<close>; a confirmed transaction moves
  it to \<open>StatusDone\<close>.
\<close>

record Sender =
  sender_cfg :: SkyExchanger
  ParseRate :: "string \<Rightarrow> error + rat"
  Send :: "string \<Rightarrow> int \<Rightarrow> error + string"
  IsTxConfirmed :: "string \<Rightarrow> error + bool"

definition ErrNotConfirmed :: error where
  "ErrNotConfirmed = OtherError ''Transaction is not confirmed yet''"

definition calculateSkyValue :: "int \<Rightarrow> rat \<Rightarrow> int \<Rightarrow> int" where
  "calculateSkyValue satoshis rate maxDecimals =
     (let sky = of_int satoshis / of_int SatoshisPerBTC * rate;
          truncated = (of_int \<lfloor>sky * 10 ^ nat maxDecimals\<rfloor> :: rat) / 10 ^ nat maxDecimals
      in \<lfloor>truncated * of_int droplet_Multiplier\<rfloor>)"

definition send_amount :: "Sender \<Rightarrow> DepositInfo \<Rightarrow> error + int" where
  "send_amount sdr di =
     (if SkySent di \<noteq> 0 then Inr (SkySent di)
      else if BuyMethod (sender_cfg sdr) = BuyMethodPassthrough then Inr (SkyBought (Passthrough di))
      else (case ParseRate sdr (ConversionRate di) of
              Inl err \<Rightarrow> Inl err
            | Inr rate \<Rightarrow>
                Inr (calculateSkyValue (Value (Deposit di)) rate (MaxDecimals (sender_cfg sdr)))))"

definition sender_submit ::
  "Sender \<Rightarrow> DepositInfo \<Rightarrow> Store \<Rightarrow> (DepositInfo \<times> error option) \<times> Store" where
  "sender_submit sdr di s =
     (if Status di \<noteq> StatusWaitSend then ((di, Some ErrDepositStatusInvalid), s)
      else if \<not> SendEnabled (sender_cfg sdr) then ((di, None), s)
      else (case send_amount sdr di of
              Inl err \<Rightarrow> ((di, Some err), s)
            | Inr amount \<Rightarrow>
                if amount = 0
                then (case UpdateDepositInfo (DepositID di) (\<lambda>d. d\<lparr>Error := ''Skycoin send amount is 0''\<rparr>) s of
                        ((d, e), s') \<Rightarrow> ((d, Some ErrEmptySendAmount), s'))
                else (case Send sdr (SkyAddress di) amount of
                        Inl err \<Rightarrow> ((di, Some err), s)
                      | Inr txid \<Rightarrow>
                          UpdateDepositInfo (DepositID di)
                            (\<lambda>d. d\<lparr>Status := StatusWaitConfirm, Txid := txid, SkySent := amount\<rparr>) s)))"

definition sender_confirm ::
  "Sender \<Rightarrow> DepositInfo \<Rightarrow> Store \<Rightarrow> (DepositInfo \<times> error option) \<times> Store" where
  "sender_confirm sdr di s =
     (if Status di \<noteq> StatusWaitConfirm then ((di, Some ErrDepositStatusInvalid), s)
      else (case IsTxConfirmed sdr (Txid di) of
              Inl err \<Rightarrow> ((di, Some err), s)
            | Inr confirmed \<Rightarrow>
                if \<not> confirmed then ((di, Some ErrNotConfirmed), s)
                else UpdateDepositInfo (DepositID di) (\<lambda>d. d\<lparr>Status := StatusDone\<rparr>) s))"

section \<open>Notions used in the statements\<close>

text \<open>
  \<open>pending_polls env orderID di c k\<close>: the \<open>k\<close> requests for the order starting with
  request number \<open>c\<close> are all answered with an order that passes the sanity checks and
  has a transitory status. \<open>polled k w\<close> is the world after \<open>k\<close> polls of the order:
  \<open>k\<close> timers of \<open>checkOrderWait\<close> armed, \<open>k\<close> looks at the quit channel and \<open>k\<close>
  requests used. \<open>stored_deposit\<close> reads a record of the store.
\<close>

definition pending_polls :: "Env \<Rightarrow> int \<Rightarrow> DepositInfo \<Rightarrow> nat \<Rightarrow> nat \<Rightarrow> bool" where
  "pending_polls env orderID di c k =
     (\<forall>j<k. \<exists>ord. GetOrderInfo env (c + j) BtcSky orderID = Inr ord \<and> checkOrder env di ord = None)"

definition polled :: "nat \<Rightarrow> World \<Rightarrow> World" where
  "polled k w = w\<lparr>timers := timers w @ replicate k checkOrderWait, ticks := ticks w - k, calls := calls w + k\<rparr>"

text \<open>
  Rounding towards zero, and the exact amounts an order stands for: the droplets bought
  and the satoshis spent, before any rounding. \<open>fits_int64\<close> is the range of \<open>int64\<close>.
\<close>

definition trunc_rat :: "rat \<Rightarrow> int" where
  "trunc_rat x = (if 0 \<le> x then \<lfloor>x\<rfloor> else \<lceil>x\<rceil>)"

definition sky_bought_exact :: "c2cx_Order \<Rightarrow> rat" where
  "sky_bought_exact order = decimal_rat (Order_CompletedAmount order) * of_int droplet_Multiplier"

definition btc_spent_exact :: "c2cx_Order \<Rightarrow> rat" where
  "btc_spent_exact order =
     decimal_rat (Order_CompletedAmount order) * decimal_rat (Order_AvgPrice order) * of_int SatoshisPerBTC"

definition fits_int64 :: "int \<Rightarrow> bool" where
  "fits_int64 z = (- (2 ^ 63) \<le> z \<and> z < 2 ^ 63)"

definition stored_deposit :: "World \<Rightarrow> string \<Rightarrow> DepositInfo option" where
  "stored_deposit w depositID = map_of (deposit_info (store w)) depositID"

text \<open>
  \<open>retry_after env di e d w\<close> is what retrying means in \<open>processWaitDecideDeposit\<close>,
  once an attempt on the deposit \<open>di\<close> has left the world \<open>w\<close> and the error \<open>e\<close>: the
  error is recorded as the processor's status and a timer of duration \<open>d\<close> is armed; if
  the quit channel is found closed the loop returns the deposit without an error;
  otherwise the next round starts with the same deposit.
\<close>

definition retry_after ::
  "Env \<Rightarrow> DepositInfo \<Rightarrow> error \<Rightarrow> int \<Rightarrow> World \<Rightarrow> (DepositInfo \<times> error option) \<times> World" where
  "retry_after env di e d w =
     (case ticks w of
        0 \<Rightarrow> ((di, None), w\<lparr>pstatus := Some e, timers := timers w @ [d]\<rparr>)
      | Suc t \<Rightarrow>
          if Status di = StatusWaitSend
          then ((di, None), w\<lparr>pstatus := Some e, timers := timers w @ [d], ticks := t\<rparr>)
          else processWaitDecideDeposit env di (w\<lparr>pstatus := Some e, timers := timers w @ [d], ticks := t\<rparr>))"

text \<open>
  Notions for the startup sweep: the customer identifier of a deposit; the records of
  the store in the order it keeps them; a store whose keys are distinct and are the \<open>DepositID\<close>s of
  the records; and \<open>recovered_by orders d\<close>, the deposit \<open>d\<close> waits at
  \<open>StatusWaitPassthrough\<close> and one of the orders carries its customer identifier.
\<close>

definition customer_id :: "DepositInfo \<Rightarrow> string" where
  "customer_id d = CustomerID (Order (Passthrough d))"

definition records :: "World \<Rightarrow> DepositInfo list" where
  "records w = map snd (deposit_info (store w))"

definition well_keyed :: "Store \<Rightarrow> bool" where
  "well_keyed s =
     (distinct (map fst (deposit_info s)) \<and> (\<forall>(k, d) \<in> set (deposit_info s). DepositID d = k))"

definition recovered_by :: "c2cx_Order list \<Rightarrow> DepositInfo \<Rightarrow> bool" where
  "recovered_by orders d =
     (Status d = StatusWaitPassthrough \<and> (\<exists>ord \<in> set orders. Order_CID ord = Some (customer_id d)))"

text \<open>
  \<open>swept orders d cur\<close> says what the sweep over \<open>orders\<close> makes of a stored deposit
  \<open>d\<close>: if it is recovered by one of the orders, the record \<open>cur\<close> now stored is \<open>d\<close> with
  \<open>Status\<close> set to \<open>StatusWaitPassthroughOrderComplete\<close>, \<open>Passthrough.Order.OrderID\<close> set
  to the text of the \<open>OrderID\<close> of such an order and a new \<open>UpdatedAt\<close>, and nothing else
  changed; otherwise it is \<open>d\<close> itself.
\<close>

definition swept :: "c2cx_Order list \<Rightarrow> DepositInfo \<Rightarrow> DepositInfo option \<Rightarrow> bool" where
  "swept orders d cur =
     (if recovered_by orders d
      then \<exists>ord t. ord \<in> set orders \<and> Order_CID ord = Some (customer_id d)
             \<and> cur = Some (d\<lparr>Status := StatusWaitPassthroughOrderComplete,
                              Passthrough := (Passthrough d)
                                \<lparr>Order := (Order (Passthrough d))
                                   \<lparr>OrderID := Sprint_int (Order_OrderID ord)\<rparr>\<rparr>,
                              UpdatedAt := t\<rparr>)
      else cur = Some d)"

text \<open>
  The same in terms of the mutator the sweep hands to the store, and for a whole store,
  whose keys stay as they are: the invariant of the sweep's loop.
\<close>

definition swept_by :: "c2cx_Order list \<Rightarrow> DepositInfo \<Rightarrow> DepositInfo option \<Rightarrow> bool" where
  "swept_by orders d cur =
     (if recovered_by orders d
      then \<exists>ord t. ord \<in> set orders \<and> Order_CID ord = Some (customer_id d)
             \<and> cur = Some ((set_OrderPlaced (Order_OrderID ord) d)\<lparr>UpdatedAt := t\<rparr>)
      else cur = Some d)"

definition sweep_inv :: "Store \<Rightarrow> c2cx_Order list \<Rightarrow> Store \<Rightarrow> bool" where
  "sweep_inv s0 processed s =
     (map fst (deposit_info s) = map fst (deposit_info s0)
      \<and> (\<forall>k d. map_of (deposit_info s0) k = Some d \<longrightarrow> swept_by processed d (map_of (deposit_info s) k)))"

text \<open>
  A deposit, an order and a processor to run the code on: the deposit \<open>t:2\<close> of one BTC
  has order 42 placed for it; the exchange answers the \<open>n\<close>-th request with what
  \<open>answers n\<close> says. The configured \<open>check_order_wait\<close> is five seconds.
\<close>

definition example_deposit :: DepositInfo where
  "example_deposit = DepositInfo_zero
     \<lparr>Seq := 1, Status := StatusWaitPassthroughOrderComplete, CoinType := ''BTC'',
      SkyAddress := ''sky-a'', DepositAddress := ''btc-a'', DepositID := ''t:2'',
      ConversionRate := ''100'', DepositValue := 100000000,
      Passthrough := \<lparr>ExchangeName = ''c2cx'', SkyBought = 0, DepositValueSpent = 0,
        RequestedAmount = ''1'',
        Order = \<lparr>CustomerID = ''t:2'', OrderID = ''42'', CompletedAmount = [], Price = [],
          PassthroughOrder_Status = [], Final = False, Original = c2cx_Order_zero\<rparr>\<rparr>\<rparr>"

definition example_order :: "OrderStatus \<Rightarrow> c2cx_Order" where
  "example_order st = \<lparr>Order_OrderID = 42, Order_CID = Some ''t:2'', Order_Status = st,
     Order_CompletedAmount = decimal_New 1234567 (- 4), Order_AvgPrice = decimal_New 8 (- 3)\<rparr>"

definition example_cfg :: SkyExchanger where
  "example_cfg = \<lparr>SkyBtcExchangeRate = ''100'', SkyEthExchangeRate = ''10'', SkySkyExchangeRate = ''1'',
     MaxDecimals = 3, TxConfirmationCheckWait = second * 5, Wallet = ''example.wlt'',
     SendEnabled = True, BuyMethod = ''passthrough'',
     C2CX = \<lparr>Key = ''key'', Secret = ''secret'', RequestFailureWait = second * 10,
       RatelimitWait = second * 30, CheckOrderWait = second * 5,
       BtcMinimumVolume = decimal_New 5 (- 3)\<rparr>\<rparr>"

definition example_status_text :: "OrderStatus \<Rightarrow> string" where
  "example_status_text st =
     (case st of StatusCompleted \<Rightarrow> ''Completed'' | StatusPending \<Rightarrow> ''Pending''
      | StatusOther n \<Rightarrow> ''Other'' | _ \<Rightarrow> ''Transitory'')"

definition example_env :: "(nat \<Rightarrow> error + c2cx_Order) \<Rightarrow> Env" where
  "example_env answers =
     \<lparr>cfg = example_cfg,
      ValidateForStatus = (\<lambda>di. None),
      GetOrderByStatus = (\<lambda>n pair st. Inr [example_order StatusPending]),
      GetOrderInfo = (\<lambda>n pair orderID. answers n),
      MarketBuy = (\<lambda>n pair amount cid. Inr 42),
      PricePrecision = 4,
      OrderStatus_String = example_status_text,
      decimal_NewFromString = (\<lambda>s. Inr (decimal_New 1 0))\<rparr>"

definition fatal_answers :: "nat \<Rightarrow> error + c2cx_Order" where
  "fatal_answers n = (if n = 0 then Inr (example_order StatusPending) else Inr (example_order (StatusOther 5)))"

definition completed_answers :: "nat \<Rightarrow> error + c2cx_Order" where
  "completed_answers n = (if n = 0 then Inr (example_order StatusPending) else Inr (example_order StatusCompleted))"

definition mismatched_answers :: "nat \<Rightarrow> error + c2cx_Order" where
  "mismatched_answers n =
     (if n = 0 then Inr (example_order StatusPending)
      else Inr ((example_order StatusCompleted)\<lparr>Order_OrderID := 43\<rparr>))"

definition tiny_negative_order :: c2cx_Order where
  "tiny_negative_order = (example_order StatusCompleted)\<lparr>Order_CompletedAmount := decimal_New (- 1) (- 7)\<rparr>"

definition new_deposit :: DepositInfo where
  "new_deposit = DepositInfo_zero
     \<lparr>Seq := 2, Status := StatusWaitDecide, CoinType := ''BTC'',
      SkyAddress := ''sky-a'', DepositAddress := ''btc-a'', DepositID := ''u:0'',
      ConversionRate := ''100'', DepositValue := 123456789\<rparr>"

definition new_world :: World where
  "new_world = \<lparr>store = \<lparr>deposit_info = [(''t:2'', example_deposit), (''u:0'', new_deposit)],
       bind_address = [], deposit_info_seq = 2, clock = 2000\<rparr>,
     ticks = 10, calls = 0, timers = [], pstatus = None, internalDeposits = [],
     picks = (\<lambda>n. True), picked = 0\<rparr>"

definition ratelimited_answers :: "nat \<Rightarrow> error + c2cx_Order" where
  "ratelimited_answers n =
     (if n = 0 then Inl (APIError ''Too Many Requests'') else Inr (example_order StatusCompleted))"

definition unrecorded_deposit :: DepositInfo where
  "unrecorded_deposit = DepositInfo_zero
     \<lparr>Seq := 3, Status := StatusWaitPassthrough, CoinType := ''BTC'',
      SkyAddress := ''sky-a'', DepositAddress := ''btc-a'', DepositID := ''v:1'',
      ConversionRate := ''100'', DepositValue := 50000000,
      Passthrough := \<lparr>ExchangeName = ''c2cx'', SkyBought = 0, DepositValueSpent = 0,
        RequestedAmount = ''0.5'',
        Order = \<lparr>CustomerID = ''v:1'', OrderID = [], CompletedAmount = [], Price = [],
          PassthroughOrder_Status = [], Final = False, Original = c2cx_Order_zero\<rparr>\<rparr>\<rparr>"

definition sweep_orders :: "c2cx_Order list" where
  "sweep_orders =
     [(example_order StatusCompleted)\<lparr>Order_OrderID := 5, Order_CID := None\<rparr>,
      (example_order StatusCompleted)\<lparr>Order_OrderID := 6, Order_CID := Some ''w:9''\<rparr>,
      (example_order StatusPending)\<lparr>Order_OrderID := 7, Order_CID := Some ''v:1''\<rparr>]"

definition sweep_env :: Env where
  "sweep_env = (example_env completed_answers)
     \<lparr>GetOrderByStatus := (\<lambda>n pair st.
        if pair = BtcSky \<and> st = StatusAll then Inr sweep_orders
        else Inl (OtherError ''unexpected query''))\<rparr>"

definition unmatched_deposit :: DepositInfo where
  "unmatched_deposit = unrecorded_deposit
     \<lparr>Seq := 4, DepositID := ''z:0'',
      Passthrough := (Passthrough unrecorded_deposit)
        \<lparr>Order := (Order (Passthrough unrecorded_deposit))\<lparr>CustomerID := ''z:0''\<rparr>\<rparr>\<rparr>"

definition sweep_world :: World where
  "sweep_world = \<lparr>store = \<lparr>deposit_info =
         [(''t:2'', example_deposit), (''v:1'', unrecorded_deposit), (''z:0'', unmatched_deposit)],
       bind_address = [], deposit_info_seq = 3, clock = 3000\<rparr>,
     ticks = 10, calls = 0, timers = [], pstatus = None, internalDeposits = [],
     picks = (\<lambda>n. True), picked = 0\<rparr>"

text \<open>
  The direct path: the deposit address \<open>btc-a\<close> is bound to \<open>sky-a\<close> for direct buying,
  the scanner reports one BTC in output 2 of transaction \<open>t\<close>, the rate is 100.
\<close>

definition direct_store :: Store where
  "direct_store = \<lparr>deposit_info = [],
     bind_address = [(''btc-a'', \<lparr>Bound_SkyAddress = ''sky-a'', Bound_Address = ''btc-a'',
       Bound_CoinType = ''BTC'', Bound_BuyMethod = ''direct''\<rparr>)],
     deposit_info_seq = 0, clock = 500\<rparr>"

definition direct_deposit :: Deposit where
  "direct_deposit = \<lparr>Deposit_CoinType = ''BTC'', Address = ''btc-a'', Value = 100000000,
     Height = 20, Tx = ''t'', N = 2\<rparr>"

definition unbound_deposit :: Deposit where
  "unbound_deposit = \<lparr>Deposit_CoinType = ''BTC'', Address = ''btc-b'', Value = 100000000,
     Height = 21, Tx = ''u'', N = 0\<rparr>"

definition direct_rates :: "string \<Rightarrow> string" where
  "direct_rates coinType = ''100''"

definition direct_sender :: Sender where
  "direct_sender = \<lparr>sender_cfg = example_cfg\<lparr>BuyMethod := ''direct''\<rparr>,
     ParseRate = (\<lambda>s. if s = ''100'' then Inr 100 else Inl (OtherError ''invalid rate'')),
     Send = (\<lambda>addr coins. Inr ''sky-txid''),
     IsTxConfirmed = (\<lambda>txid. Inr True)\<rparr>"

definition fresh_receiver :: Receiver where
  "fresh_receiver = \<lparr>receiver_store = direct_store, emitted = [], acks = [], receiver_log = []\<rparr>"

definition example_config :: Config where
  "example_config =
     \<lparr>Debug = True, LogFilename = ''./teller.log'', DBFilename = ''teller.db'', PidFilename = [],
      GitCommit = [], StartTime = 0, BtcAddresses = ''btc.json'', EthAddresses = ''eth.json'',
      SkyAddresses = [],
      Teller = \<lparr>MaxBoundAddresses = 5, BindEnabled = True\<rparr>,
      SkyRPC = \<lparr>SkyRPC_Address = ''127.0.0.1:6430''\<rparr>,
      BtcRPC = \<lparr>BtcRPC_Server = ''127.0.0.1:8334'', User = ''rpcuser'', Pass = ''rpcpass'', Cert = ''rpc.cert''\<rparr>,
      EthRPC = \<lparr>EthRPC_Server = [], Port = []\<rparr>,
      BtcScanner = \<lparr>BtcScanner_ScanPeriod = second * 20, BtcScanner_InitialScanHeight = 492478,
        BtcScanner_ConfirmationsRequired = 1, BtcScanner_Enabled = True\<rparr>,
      EthScanner = \<lparr>EthScanner_ScanPeriod = second * 5, EthScanner_InitialScanHeight = 4654259,
        EthScanner_ConfirmationsRequired = 1, EthScanner_Enabled = False\<rparr>,
      SkyScanner = \<lparr>SkyScanner_ScanPeriod = second * 5, SkyScanner_InitialScanHeight = 17000,
        SkyScanner_ConfirmationsRequired = 0, SkyScanner_Enabled = False\<rparr>,
      SkyExchanger = example_cfg\<lparr>C2CX := (C2CX example_cfg)\<lparr>Secret := []\<rparr>\<rparr>,
      Web = \<lparr>HTTPAddr = ''127.0.0.1:7071'', HTTPSAddr = [], StaticDir = ''./web/build'',
        AutoTLSHost = [], TLSCert = [], TLSKey = [], ThrottleMax = 60,
        ThrottleDuration = second * 60, BehindProxy = False, CORSAllowed = []\<rparr>,
      AdminPanel = \<lparr>Host = ''127.0.0.1:7711''\<rparr>,
      Dummy = \<lparr>Scanner = False, Sender = False, Dummy_HTTPAddr = ''127.0.0.1:4121''\<rparr>\<rparr>"

definition example_store :: Store where
  "example_store = \<lparr>deposit_info = [(''t:2'', example_deposit)],
     bind_address = [(''btc-a'', \<lparr>Bound_SkyAddress = ''sky-a'', Bound_Address = ''btc-a'',
       Bound_CoinType = ''BTC'', Bound_BuyMethod = ''passthrough''\<rparr>)],
     deposit_info_seq = 1, clock = 1000\<rparr>"

definition example_world :: World where
  "example_world = \<lparr>store = example_store, ticks = 10, calls = 0, timers = [],
     pstatus = None, internalDeposits = [],
     picks = (\<lambda>n. True), picked = 0\<rparr>"

text \<open>
  Two notions used to state what \<open>Redacted\<close> does: \<open>redact\<close> is the value a credential
  is shown as, \<open>with_credentials\<close> is a configuration with the four credential fields
  set and everything else left as it is.
\<close>

definition redact :: "string \<Rightarrow> string" where
  "redact x = (if x = [] then [] else redacted)"

definition with_credentials :: "Config \<Rightarrow> string \<Rightarrow> string \<Rightarrow> string \<Rightarrow> string \<Rightarrow> Config" where
  "with_credentials c u p k s =
     c\<lparr>BtcRPC := (BtcRPC c)\<lparr>User := u, Pass := p\<rparr>,
       SkyExchanger := (SkyExchanger c)\<lparr>C2CX := (C2CX (SkyExchanger c))\<lparr>Key := k, Secret := s\<rparr>\<rparr>\<rparr>"

section \<open>Redaction of credentials\<close>

lemma Redacted_with_credentials:
  "Redacted (with_credentials c u p k s) = with_credentials c (redact u) (redact p) (redact k) (redact s)"
  by (simp add: Redacted_def with_credentials_def redact_def Let_def)

lemma with_credentials_self:
  "with_credentials c (User (BtcRPC c)) (Pass (BtcRPC c))
     (Key (C2CX (SkyExchanger c))) (Secret (C2CX (SkyExchanger c))) = c"
  by (simp add: with_credentials_def)

text \<open>
  Claim C10. For every configuration, \<open>Redacted\<close> returns the configuration with
  \<open>BtcRPC.User\<close>, \<open>BtcRPC.Pass\<close>, \<open>SkyExchanger.C2CX.Key\<close> and
  \<open>SkyExchanger.C2CX.Secret\<close> replaced by \<open><redacted>\<close> when they are non-empty and
  left empty otherwise, and every other field unchanged. Consequently the copy that is
  logged at startup does not depend on the values of the credentials, only on which of
  them are empty: any two configurations that differ only in their non-empty
  credentials are logged as the same value.
\<close>

theorem Redacted_hides_credentials:
  "Redacted c =
     with_credentials c (redact (User (BtcRPC c))) (redact (Pass (BtcRPC c)))
       (redact (Key (C2CX (SkyExchanger c)))) (redact (Secret (C2CX (SkyExchanger c))))
   \<and> (\<forall>u p k s u' p' k' s'.
        (u = [] \<longleftrightarrow> u' = []) \<and> (p = [] \<longleftrightarrow> p' = []) \<and> (k = [] \<longleftrightarrow> k' = []) \<and> (s = [] \<longleftrightarrow> s' = [])
        \<longrightarrow> logged_config (with_credentials c u p k s) = logged_config (with_credentials c u' p' k' s'))"
proof -
  have "Redacted c =
      Redacted (with_credentials c (User (BtcRPC c)) (Pass (BtcRPC c))
        (Key (C2CX (SkyExchanger c))) (Secret (C2CX (SkyExchanger c))))"
    by (simp only: with_credentials_self)
  then have first: "Redacted c =
     with_credentials c (redact (User (BtcRPC c))) (redact (Pass (BtcRPC c)))
       (redact (Key (C2CX (SkyExchanger c)))) (redact (Secret (C2CX (SkyExchanger c))))"
    by (simp only: Redacted_with_credentials)
  have second: "logged_config (with_credentials c u p k s) = logged_config (with_credentials c u' p' k' s')"
    if "(u = [] \<longleftrightarrow> u' = [])" "(p = [] \<longleftrightarrow> p' = [])" "(k = [] \<longleftrightarrow> k' = [])" "(s = [] \<longleftrightarrow> s' = [])"
    for u p k s u' p' k' s'
  proof -
    have "redact u = redact u'" "redact p = redact p'" "redact k = redact k'" "redact s = redact s'"
      using that by (simp_all add: redact_def)
    then show ?thesis
      by (simp add: logged_config_def Redacted_with_credentials)
  qed
  show ?thesis
  proof (intro conjI allI impI)
    show "Redacted c =
     with_credentials c (redact (User (BtcRPC c))) (redact (Pass (BtcRPC c)))
       (redact (Key (C2CX (SkyExchanger c)))) (redact (Secret (C2CX (SkyExchanger c))))"
      by (rule first)
  next
    fix u p k s u' p' k' s' :: string
    assume "(u = [] \<longleftrightarrow> u' = []) \<and> (p = [] \<longleftrightarrow> p' = []) \<and> (k = [] \<longleftrightarrow> k' = []) \<and> (s = [] \<longleftrightarrow> s' = [])"
    then show "logged_config (with_credentials c u p k s) = logged_config (with_credentials c u' p' k' s')"
      by (intro second) simp_all
  qed
qed

lemma example_config_credentials:
  "User (BtcRPC example_config) = ''rpcuser''" "Pass (BtcRPC example_config) = ''rpcpass''"
  "Key (C2CX (SkyExchanger example_config)) = ''key''" "Secret (C2CX (SkyExchanger example_config)) = []"
  by (simp_all add: example_config_def example_cfg_def)

lemma redact_values: "redact ''rpcuser'' = ''<redacted>''" "redact ''rpcpass'' = ''<redacted>''"
  "redact ''key'' = ''<redacted>''" "redact [] = []"
  by (simp_all add: redact_def redacted_def)

theorem Redacted_hides_credentials_witness:
  "Redacted example_config = with_credentials example_config ''<redacted>'' ''<redacted>'' ''<redacted>'' []
   \<and> logged_config (with_credentials example_config ''alice'' ''hunter2'' ''key-1'' [])
       = logged_config (with_credentials example_config ''bob'' ''swordfish'' ''key-2'' [])"
proof (rule conjI)
  show "Redacted example_config
      = with_credentials example_config ''<redacted>'' ''<redacted>'' ''<redacted>'' []"
    using Redacted_hides_credentials [of example_config, THEN conjunct1]
    by (simp only: example_config_credentials redact_values)
  have "(''alice'' = [] \<longleftrightarrow> ''bob'' = []) \<and> (''hunter2'' = [] \<longleftrightarrow> ''swordfish'' = [])
        \<and> (''key-1'' = [] \<longleftrightarrow> ''key-2'' = []) \<and> (([]::string) = [] \<longleftrightarrow> ([]::string) = [])"
    by simp
  then show "logged_config (with_credentials example_config ''alice'' ''hunter2'' ''key-1'' [])
            = logged_config (with_credentials example_config ''bob'' ''swordfish'' ''key-2'' [])"
    by (rule Redacted_hides_credentials [of example_config, THEN conjunct2, rule_format])
qed

section \<open>Polling an order\<close>

lemma polled_0 [simp]: "polled 0 w = w"
  by (simp add: polled_def)

lemma pending_polls_Suc:
  "pending_polls env orderID di c (Suc k) \<longleftrightarrow>
     (\<exists>ord. GetOrderInfo env c BtcSky orderID = Inr ord \<and> checkOrder env di ord = None)
     \<and> pending_polls env orderID di (Suc c) k"
  unfolding pending_polls_def
proof (intro iffI conjI allI impI; (elim conjE)?)
  assume a: "\<forall>j<Suc k. \<exists>ord. GetOrderInfo env (c + j) BtcSky orderID = Inr ord \<and> checkOrder env di ord = None"
  from a [rule_format, of 0] show "\<exists>ord. GetOrderInfo env c BtcSky orderID = Inr ord \<and> checkOrder env di ord = None"
    by simp
  fix j assume "j < k"
  with a [rule_format, of "Suc j"]
  show "\<exists>ord. GetOrderInfo env (Suc c + j) BtcSky orderID = Inr ord \<and> checkOrder env di ord = None"
    by simp
next
  fix j
  assume h: "\<exists>ord. GetOrderInfo env c BtcSky orderID = Inr ord \<and> checkOrder env di ord = None"
    and t: "\<forall>j<k. \<exists>ord. GetOrderInfo env (Suc c + j) BtcSky orderID = Inr ord \<and> checkOrder env di ord = None"
    and j: "j < Suc k"
  show "\<exists>ord. GetOrderInfo env (c + j) BtcSky orderID = Inr ord \<and> checkOrder env di ord = None"
  proof (cases j)
    case 0
    with h show ?thesis by simp
  next
    case (Suc i)
    with j t [rule_format, of i] show ?thesis by simp
  qed
qed

lemma waitCompletedLoop_pending:
  "ticks w = n \<Longrightarrow> k \<le> n \<Longrightarrow> pending_polls env orderID di (calls w) k \<Longrightarrow>
   waitCompletedLoop env orderID di n w = waitCompletedLoop env orderID di (n - k) (polled k w)"
proof (induction k arbitrary: n w)
  case 0
  then show ?case by simp
next
  case (Suc k)
  then obtain n' where n: "n = Suc n'" by (cases n) auto
  from Suc.prems(3) obtain ord where
    ord: "GetOrderInfo env (calls w) BtcSky orderID = Inr ord" "checkOrder env di ord = None"
    and rest: "pending_polls env orderID di (Suc (calls w)) k"
    by (auto simp: pending_polls_Suc)
  let ?w1 = "w\<lparr>timers := timers w @ [checkOrderWait], ticks := n', calls := Suc (calls w)\<rparr>"
  have "waitCompletedLoop env orderID di n w = waitCompletedLoop env orderID di n' ?w1"
    by (simp add: n ord)
  also have "\<dots> = waitCompletedLoop env orderID di (n' - k) (polled k ?w1)"
    using Suc.prems rest by (intro Suc.IH) (simp_all add: n)
  also have "polled k ?w1 = polled (Suc k) w"
    using Suc.prems by (simp add: polled_def n replicate_append_same)
  finally show ?case by (simp add: n)
qed

lemma waitCompletedLoop_decided:
  assumes "ticks w = n" "0 < n"
    and "GetOrderInfo env (calls w) BtcSky orderID = Inr ord"
    and "checkOrder env di ord = Some r"
  shows "waitCompletedLoop env orderID di n w = (r, polled 1 w)"
proof -
  from assms obtain n' where n: "n = Suc n'" by (cases n) auto
  show ?thesis using assms by (simp add: n polled_def)
qed

lemma waitCompletedLoop_failed:
  assumes "ticks w = n" "0 < n"
    and "GetOrderInfo env (calls w) BtcSky orderID = Inl err"
  shows "waitCompletedLoop env orderID di n w = ((di, Some err), polled 1 w)"
proof -
  from assms obtain n' where n: "n = Suc n'" by (cases n) auto
  show ?thesis using assms by (simp add: n polled_def)
qed

lemma polled_polled: "polled a (polled b w) = polled (b + a) w"
  by (simp add: polled_def replicate_add)

lemma polled_fields [simp]:
  "store (polled k w) = store w" "calls (polled k w) = calls w + k"
  "ticks (polled k w) = ticks w - k" "timers (polled k w) = timers w @ replicate k checkOrderWait"
  "pstatus (polled k w) = pstatus w" "internalDeposits (polled k w) = internalDeposits w"
  by (simp_all add: polled_def)

lemma waitOrderComplete_polls:
  assumes "Atoi (OrderID (Order (Passthrough di))) = Inr orderID"
    and "pending_polls env orderID di (calls w) k" "k < ticks w"
    and "GetOrderInfo env (calls w + k) BtcSky orderID = Inr ord"
    and "checkOrder env di ord = Some r"
  shows "waitOrderComplete env di w = (r, polled (Suc k) w)"
proof -
  have ne: "OrderID (Order (Passthrough di)) \<noteq> []"
    using assms(1) by (auto simp: Atoi_def)
  have "waitCompletedLoop env orderID di (ticks w) w
          = waitCompletedLoop env orderID di (ticks w - k) (polled k w)"
    using assms by (intro waitCompletedLoop_pending) simp_all
  also have "\<dots> = (r, polled 1 (polled k w))"
    using assms by (intro waitCompletedLoop_decided [where ord = ord]) simp_all
  finally show ?thesis
    using ne assms(1) by (simp add: waitOrderComplete_def polled_polled)
qed


section \<open>The store and one step of a deposit\<close>

lemma map_of_alist_put: "map_of (alist_put k v kvs) = (map_of kvs)(k \<mapsto> v)"
  by (induction kvs) (auto simp: fun_eq_iff)

lemma UpdateDepositInfo_ok:
  assumes "map_of (deposit_info s) k = Some dpi"
    and "valid_transition (Status dpi) (Status (f dpi))"
  shows "UpdateDepositInfo k f s =
           (((f dpi)\<lparr>UpdatedAt := clock s\<rparr>, None),
            s\<lparr>deposit_info := alist_put k ((f dpi)\<lparr>UpdatedAt := clock s\<rparr>) (deposit_info s),
              clock := clock s + 1\<rparr>)"
  using assms by (simp add: UpdateDepositInfo_def Let_def)

lemma update_deposit_ok:
  assumes "stored_deposit w k = Some dpi"
    and "valid_transition (Status dpi) (Status (f dpi))"
  shows "\<exists>w'. update_deposit k f w = (((f dpi)\<lparr>UpdatedAt := clock (store w)\<rparr>, None), w')
           \<and> stored_deposit w' k = Some ((f dpi)\<lparr>UpdatedAt := clock (store w)\<rparr>)
           \<and> ticks w' = ticks w \<and> calls w' = calls w \<and> timers w' = timers w"
  using assms
  by (simp add: update_deposit_def stored_deposit_def UpdateDepositInfo_ok map_of_alist_put)

lemma handle_order_complete:
  assumes "ValidateForStatus env di = None" "CoinType di = CoinTypeBTC"
    and "Status di = StatusWaitPassthroughOrderComplete"
    and "waitOrderComplete env di w = ((nd, err), w1)"
    and "err = None \<or> err = Some ErrFatalOrderStatus"
  shows "handleDepositInfoState env di w = update_deposit (DepositID di) (set_WaitSend nd) w1"
  using assms by (auto simp: handleDepositInfoState_def)

lemma checkOrder_fatal:
  assumes "Sprint_int (Order_OrderID ord) = OrderID (Order (Passthrough di))"
    and "Order_CID ord = Some (CustomerID (Order (Passthrough di)))"
    and "\<not> transitory (Order_Status ord)" "Order_Status ord \<noteq> StatusCompleted"
  shows "checkOrder env di ord = Some (order_fatal env ord di, Some ErrFatalOrderStatus)"
  using assms by (simp add: checkOrder_def)

lemma checkOrder_completed:
  assumes "Sprint_int (Order_OrderID ord) = OrderID (Order (Passthrough di))"
    and "Order_CID ord = Some (CustomerID (Order (Passthrough di)))"
    and "Order_Status ord = StatusCompleted"
  shows "checkOrder env di ord = Some (order_completed env ord di, None)"
  using assms by (simp add: checkOrder_def transitory_def)

lemma handle_decided:
  assumes valid: "ValidateForStatus env di = None" and btc: "CoinType di = CoinTypeBTC"
    and st: "Status di = StatusWaitPassthroughOrderComplete"
    and oid: "Atoi (OrderID (Order (Passthrough di))) = Inr orderID"
    and pend: "pending_polls env orderID di (calls w) k" and k: "k < ticks w"
    and ans: "GetOrderInfo env (calls w + k) BtcSky orderID = Inr ord"
    and chk: "checkOrder env di ord = Some (nd, err)"
    and err: "err = None \<or> err = Some ErrFatalOrderStatus"
    and rec: "stored_deposit w (DepositID di) = Some dpi"
    and dpi: "Status dpi = StatusWaitPassthroughOrderComplete \<or> Status dpi = StatusWaitSend"
  shows "\<exists>w'. handleDepositInfoState env di w
               = ((nd\<lparr>Status := StatusWaitSend, UpdatedAt := clock (store w)\<rparr>, None), w')
           \<and> stored_deposit w' (DepositID di)
               = Some (nd\<lparr>Status := StatusWaitSend, UpdatedAt := clock (store w)\<rparr>)
           \<and> ticks w' = ticks w - Suc k \<and> calls w' = calls w + Suc k
           \<and> timers w' = timers w @ replicate (Suc k) checkOrderWait"
proof -
  have wait: "waitOrderComplete env di w = ((nd, err), polled (Suc k) w)"
    using oid pend k ans chk by (rule waitOrderComplete_polls)
  have h: "handleDepositInfoState env di w
             = update_deposit (DepositID di) (set_WaitSend nd) (polled (Suc k) w)"
    using valid btc st wait err by (rule handle_order_complete)
  have rec': "stored_deposit (polled (Suc k) w) (DepositID di) = Some dpi"
    using rec by (simp add: stored_deposit_def)
  have vt: "valid_transition (Status dpi) (Status (set_WaitSend nd dpi))"
    using dpi by (auto simp: valid_transition_def set_WaitSend_def)
  from update_deposit_ok [of "polled (Suc k) w" "DepositID di" dpi "set_WaitSend nd", OF rec' vt]
  show ?thesis
    unfolding h by (simp add: set_WaitSend_def)
qed

section \<open>The example\<close>

lemma Atoi_42: "Atoi ''42'' = Inr 42"
  by (simp add: Atoi_def is_digit_def digits_value_def digit_value_def)

lemma Sprint_42: "Sprint_int 42 = ''42''" "Sprint_int 43 = ''43''"
  by (simp_all add: Sprint_int_def nat_digits.simps)

lemma example_deposit_fields:
  "Status example_deposit = StatusWaitPassthroughOrderComplete"
  "CoinType example_deposit = CoinTypeBTC"
  "DepositID example_deposit = ''t:2''"
  "OrderID (Order (Passthrough example_deposit)) = ''42''"
  "CustomerID (Order (Passthrough example_deposit)) = ''t:2''"
  by (simp_all add: example_deposit_def DepositInfo_zero_def CoinTypeBTC_def)

lemma example_env_fields:
  "ValidateForStatus (example_env a) di = None"
  "GetOrderInfo (example_env a) n pair orderID = a n"
  "cfg (example_env a) = example_cfg"
  "OrderStatus_String (example_env a) = example_status_text"
  "PricePrecision (example_env a) = 4"
  by (simp_all add: example_env_def)

lemma example_world_fields:
  "ticks example_world = 10" "calls example_world = 0" "timers example_world = []"
  "store example_world = example_store"
  "stored_deposit example_world ''t:2'' = Some example_deposit"
  "clock (store example_world) = 1000"
  by (simp_all add: example_world_def example_store_def stored_deposit_def)

lemma example_checkOrder_pending:
  "checkOrder (example_env a) example_deposit (example_order StatusPending) = None"
  by (simp add: checkOrder_def example_order_def example_deposit_fields Sprint_42 transitory_def)

lemma example_pending_polls:
  assumes "a 0 = Inr (example_order StatusPending)"
  shows "pending_polls (example_env a) 42 example_deposit (calls example_world) 1"
  using assms
  by (simp add: pending_polls_def example_env_fields example_checkOrder_pending example_world_fields)

section \<open>Orders in a fatal status\<close>

text \<open>
  Claim C1, as the code has it. When the order of a deposit at
  \<open>StatusWaitPassthroughOrderComplete\<close> is answered, after any number of polls that
  found it in a transitory status, with a final status other than \<open>Completed\<close>, then
  \<open>handleDepositInfoState\<close> records the fatal-order marker on the deposit (the text of
  the status, \<open>Final = True\<close> and the order as \<open>Original\<close>), leaves \<open>SkyBought\<close> and
  \<open>DepositValueSpent\<close> as they were, and, the store holding the deposit at
  \<open>StatusWaitPassthroughOrderComplete\<close>, persists it with \<open>StatusWaitSend\<close> and returns it
  without an error.
\<close>

theorem fatal_order_is_sent_on:
  assumes "ValidateForStatus env di = None" and "CoinType di = CoinTypeBTC"
    and "Status di = StatusWaitPassthroughOrderComplete"
    and "Atoi (OrderID (Order (Passthrough di))) = Inr orderID"
    and "pending_polls env orderID di (calls w) k" and "k < ticks w"
    and "GetOrderInfo env (calls w + k) BtcSky orderID = Inr ord"
    and "Sprint_int (Order_OrderID ord) = OrderID (Order (Passthrough di))"
    and "Order_CID ord = Some (CustomerID (Order (Passthrough di)))"
    and "\<not> transitory (Order_Status ord)" and "Order_Status ord \<noteq> StatusCompleted"
    and "stored_deposit w (DepositID di) = Some dpi"
    and "Status dpi = StatusWaitPassthroughOrderComplete"
  shows "\<exists>w' final.
           handleDepositInfoState env di w = ((final, None), w')
         \<and> stored_deposit w' (DepositID di) = Some final
         \<and> final = (order_fatal env ord di)\<lparr>Status := StatusWaitSend, UpdatedAt := clock (store w)\<rparr>
         \<and> Status final = StatusWaitSend
         \<and> PassthroughOrder_Status (Order (Passthrough final)) = OrderStatus_String env (Order_Status ord)
         \<and> Final (Order (Passthrough final)) = True
         \<and> Original (Order (Passthrough final)) = ord
         \<and> SkyBought (Passthrough final) = SkyBought (Passthrough di)
         \<and> DepositValueSpent (Passthrough final) = DepositValueSpent (Passthrough di)"
proof -
  have chk: "checkOrder env di ord = Some (order_fatal env ord di, Some ErrFatalOrderStatus)"
    using assms(8-11) by (rule checkOrder_fatal)
  have "Status dpi = StatusWaitPassthroughOrderComplete \<or> Status dpi = StatusWaitSend"
    using assms(13) by simp
  from handle_decided [OF assms(1-7) chk _ assms(12) this]
  obtain w' where
    "handleDepositInfoState env di w
       = (((order_fatal env ord di)\<lparr>Status := StatusWaitSend, UpdatedAt := clock (store w)\<rparr>, None), w')"
    "stored_deposit w' (DepositID di)
       = Some ((order_fatal env ord di)\<lparr>Status := StatusWaitSend, UpdatedAt := clock (store w)\<rparr>)"
    by auto
  then show ?thesis
    by (simp add: order_fatal_def)
qed

theorem fatal_order_is_sent_on_witness:
  "\<exists>w' final.
     handleDepositInfoState (example_env fatal_answers) example_deposit example_world = ((final, None), w')
   \<and> stored_deposit w' ''t:2'' = Some final
   \<and> Status final = StatusWaitSend
   \<and> PassthroughOrder_Status (Order (Passthrough final)) = ''Other''
   \<and> Final (Order (Passthrough final)) = True"
proof -
  have "\<exists>w' final.
           handleDepositInfoState (example_env fatal_answers) example_deposit example_world = ((final, None), w')
         \<and> stored_deposit w' (DepositID example_deposit) = Some final
         \<and> final = (order_fatal (example_env fatal_answers) (example_order (StatusOther 5)) example_deposit)
              \<lparr>Status := StatusWaitSend, UpdatedAt := clock (store example_world)\<rparr>
         \<and> Status final = StatusWaitSend
         \<and> PassthroughOrder_Status (Order (Passthrough final))
             = OrderStatus_String (example_env fatal_answers) (Order_Status (example_order (StatusOther 5)))
         \<and> Final (Order (Passthrough final)) = True
         \<and> Original (Order (Passthrough final)) = example_order (StatusOther 5)
         \<and> SkyBought (Passthrough final) = SkyBought (Passthrough example_deposit)
         \<and> DepositValueSpent (Passthrough final) = DepositValueSpent (Passthrough example_deposit)"
  proof (rule fatal_order_is_sent_on [where orderID = 42 and k = 1 and dpi = example_deposit])
    show "pending_polls (example_env fatal_answers) 42 example_deposit (calls example_world) 1"
      by (rule example_pending_polls) (simp add: fatal_answers_def)
    show "GetOrderInfo (example_env fatal_answers) (calls example_world + 1) BtcSky 42
            = Inr (example_order (StatusOther 5))"
      by (simp add: example_env_fields example_world_fields fatal_answers_def)
  qed (simp_all add: example_env_fields example_deposit_fields example_world_fields Atoi_42
         Sprint_42 example_order_def transitory_def)
  then show ?thesis
    by (auto simp: example_deposit_fields example_env_fields example_order_def example_status_text_def)
qed

text \<open>
  The deposit \<open>t:2\<close> waits for order 42; the exchange answers the second poll with a
  status that is neither transitory nor \<open>Completed\<close>. The step returns the deposit at
  \<open>StatusWaitSend\<close> without an error, and so it is stored.
\<close>

theorem fatal_order_counterexample:
  "\<not> transitory (Order_Status (example_order (StatusOther 5)))
   \<and> Order_Status (example_order (StatusOther 5)) \<noteq> StatusCompleted
   \<and> Status example_deposit = StatusWaitPassthroughOrderComplete
   \<and> Status (fst (fst (handleDepositInfoState (example_env fatal_answers) example_deposit example_world)))
       = StatusWaitSend
   \<and> snd (fst (handleDepositInfoState (example_env fatal_answers) example_deposit example_world)) = None
   \<and> map_option Status (stored_deposit
        (snd (handleDepositInfoState (example_env fatal_answers) example_deposit example_world)) ''t:2'')
       = Some StatusWaitSend"
proof -
  have chk: "checkOrder (example_env fatal_answers) example_deposit (example_order (StatusOther 5))
      = Some (order_fatal (example_env fatal_answers) (example_order (StatusOther 5)) example_deposit,
              Some ErrFatalOrderStatus)"
    by (rule checkOrder_fatal)
       (simp_all add: example_deposit_fields Sprint_42 example_order_def transitory_def)
  have "\<exists>w'. handleDepositInfoState (example_env fatal_answers) example_deposit example_world
               = (((order_fatal (example_env fatal_answers) (example_order (StatusOther 5)) example_deposit)
                     \<lparr>Status := StatusWaitSend, UpdatedAt := clock (store example_world)\<rparr>, None), w')
           \<and> stored_deposit w' (DepositID example_deposit)
               = Some ((order_fatal (example_env fatal_answers) (example_order (StatusOther 5)) example_deposit)
                     \<lparr>Status := StatusWaitSend, UpdatedAt := clock (store example_world)\<rparr>)
           \<and> ticks w' = ticks example_world - Suc 1 \<and> calls w' = calls example_world + Suc 1
           \<and> timers w' = timers example_world @ replicate (Suc 1) checkOrderWait"
  proof (rule handle_decided [where orderID = 42 and dpi = example_deposit, OF _ _ _ _ _ _ _ chk])
    show "pending_polls (example_env fatal_answers) 42 example_deposit (calls example_world) 1"
      by (rule example_pending_polls) (simp add: fatal_answers_def)
    show "GetOrderInfo (example_env fatal_answers) (calls example_world + 1) BtcSky 42
            = Inr (example_order (StatusOther 5))"
      by (simp add: example_env_fields example_world_fields fatal_answers_def)
  qed (simp_all add: example_env_fields example_deposit_fields example_world_fields Atoi_42)
  then show ?thesis
    by (auto simp: example_deposit_fields example_order_def transitory_def)
qed

section \<open>Answers that do not belong to the deposit's order\<close>

lemma checkOrder_mismatch:
  assumes "Sprint_int (Order_OrderID ord) \<noteq> OrderID (Order (Passthrough di))
           \<or> Order_CID ord = None
           \<or> Order_CID ord \<noteq> Some (CustomerID (Order (Passthrough di)))"
  shows "\<exists>e. (e = errOrderIDMismatch \<or> e = errCIDMismatch) \<and> checkOrder env di ord = Some (di, Some e)"
  using assms by (cases "Order_CID ord") (auto simp: checkOrder_def)

lemma handle_wait_failed:
  assumes "ValidateForStatus env di = None" "CoinType di = CoinTypeBTC"
    and "Status di = StatusWaitPassthroughOrderComplete"
    and "waitOrderComplete env di w = ((nd, Some e), w1)"
    and "e \<noteq> ErrFatalOrderStatus"
  shows "handleDepositInfoState env di w = ((di, Some e), w1)"
  using assms by (simp add: handleDepositInfoState_def)

lemma processRound_fail:
  assumes "handleDepositInfoState env di w = ((di1, Some e), w1)" "classify (Some e) = fail"
  shows "processRound env di w = (Inl (di1, Some e), w1\<lparr>pstatus := Some e\<rparr>)"
  using assms by (simp add: processRound_def)

text \<open>
  Claim C7. Whenever an answer of \<open>GetOrderInfo\<close> received while waiting for the order
  (after any number of polls that found the order pending) carries another \<open>OrderID\<close>
  than the one stored on the deposit, or no \<open>CID\<close>, or a \<open>CID\<close> other than the stored
  \<open>CustomerID\<close>, then \<open>handleDepositInfoState\<close> returns the deposit as it was together
  with an error, whatever the status of the answered order is; the store is not
  touched, and the retry loop classifies the error as a failure and returns it.
\<close>

theorem mismatched_order_aborts:
  assumes "ValidateForStatus env di = None" and "CoinType di = CoinTypeBTC"
    and "Status di = StatusWaitPassthroughOrderComplete"
    and "Atoi (OrderID (Order (Passthrough di))) = Inr orderID"
    and "pending_polls env orderID di (calls w) k" and "k < ticks w"
    and "GetOrderInfo env (calls w + k) BtcSky orderID = Inr ord"
    and "Sprint_int (Order_OrderID ord) \<noteq> OrderID (Order (Passthrough di))
         \<or> Order_CID ord = None
         \<or> Order_CID ord \<noteq> Some (CustomerID (Order (Passthrough di)))"
  shows "\<exists>e. (e = errOrderIDMismatch \<or> e = errCIDMismatch)
           \<and> handleDepositInfoState env di w = ((di, Some e), polled (Suc k) w)
           \<and> store (polled (Suc k) w) = store w
           \<and> processRound env di w = (Inl (di, Some e), (polled (Suc k) w)\<lparr>pstatus := Some e\<rparr>)"
proof -
  from checkOrder_mismatch [OF assms(8)] obtain e where
    e: "e = errOrderIDMismatch \<or> e = errCIDMismatch" and chk: "checkOrder env di ord = Some (di, Some e)"
    by blast
  have wait: "waitOrderComplete env di w = ((di, Some e), polled (Suc k) w)"
    using assms(4-7) chk by (rule waitOrderComplete_polls)
  have ne: "e \<noteq> ErrFatalOrderStatus"
    using e by (auto simp: errOrderIDMismatch_def errCIDMismatch_def)
  have h: "handleDepositInfoState env di w = ((di, Some e), polled (Suc k) w)"
    using assms(1-3) wait ne by (rule handle_wait_failed)
  have "classify (Some e) = fail"
    using e by (auto simp: classify_def errOrderIDMismatch_def errCIDMismatch_def)
  with h have "processRound env di w = (Inl (di, Some e), (polled (Suc k) w)\<lparr>pstatus := Some e\<rparr>)"
    by (rule processRound_fail)
  with e h show ?thesis by auto
qed

theorem mismatched_order_aborts_witness:
  "\<exists>e. handleDepositInfoState (example_env mismatched_answers) example_deposit example_world
          = ((example_deposit, Some e), polled 2 example_world)
      \<and> stored_deposit (polled 2 example_world) ''t:2'' = Some example_deposit"
proof -
  have "\<exists>e. (e = errOrderIDMismatch \<or> e = errCIDMismatch)
           \<and> handleDepositInfoState (example_env mismatched_answers) example_deposit example_world
               = ((example_deposit, Some e), polled (Suc 1) example_world)
           \<and> store (polled (Suc 1) example_world) = store example_world
           \<and> processRound (example_env mismatched_answers) example_deposit example_world
               = (Inl (example_deposit, Some e), (polled (Suc 1) example_world)\<lparr>pstatus := Some e\<rparr>)"
  proof (rule mismatched_order_aborts [where orderID = 42
        and ord = "(example_order StatusCompleted)\<lparr>Order_OrderID := 43\<rparr>"])
    show "pending_polls (example_env mismatched_answers) 42 example_deposit (calls example_world) 1"
      by (rule example_pending_polls) (simp add: mismatched_answers_def)
    show "GetOrderInfo (example_env mismatched_answers) (calls example_world + 1) BtcSky 42
            = Inr ((example_order StatusCompleted)\<lparr>Order_OrderID := 43\<rparr>)"
      by (simp add: example_env_fields example_world_fields mismatched_answers_def)
  qed (simp_all add: example_env_fields example_deposit_fields example_world_fields Atoi_42 Sprint_42)
  moreover have "stored_deposit (polled 2 example_world) ''t:2'' = Some example_deposit"
    using example_world_fields(5) by (simp add: stored_deposit_def)
  ultimately show ?thesis
    by (auto simp: numeral_2_eq_2)
qed

section \<open>The wait between two polls\<close>

lemma waitCompletedLoop_timers:
  "\<exists>m. timers (snd (waitCompletedLoop env orderID di n w)) = timers w @ replicate m checkOrderWait"
proof (induction n arbitrary: w)
  case 0
  have "timers w @ [checkOrderWait] = timers w @ replicate 1 checkOrderWait" by simp
  then show ?case by (intro exI [of _ 1]) simp
next
  case (Suc n)
  let ?w1 = "w\<lparr>timers := timers w @ [checkOrderWait], ticks := n, calls := Suc (calls w)\<rparr>"
  have one: "\<exists>m. timers ?w1 = timers w @ replicate m checkOrderWait"
    by (rule exI [of _ 1]) simp
  from Suc.IH [of ?w1] obtain m where
    "timers (snd (waitCompletedLoop env orderID di n ?w1)) = timers ?w1 @ replicate m checkOrderWait" ..
  then have rec: "\<exists>m. timers (snd (waitCompletedLoop env orderID di n ?w1)) = timers w @ replicate m checkOrderWait"
    by (intro exI [of _ "Suc m"]) (simp add: replicate_append_same)
  show ?case
    using one rec by (auto simp: Let_def split: sum.splits option.splits)
qed

text \<open>
  Claim C6, evaluated on the code. The processor is configured with a
  \<open>check_order_wait\<close> of five seconds; it polls order 42 twice (pending, then
  completed), and both waits are the two seconds of the constant \<open>checkOrderWait\<close>.
\<close>

theorem configured_CheckOrderWait_is_not_used:
  "CheckOrderWait (C2CX (cfg (example_env completed_answers))) = 5000000000
   \<and> timers (snd (waitOrderComplete (example_env completed_answers) example_deposit example_world))
       = [2000000000, 2000000000]"
proof -
  have chk: "checkOrder (example_env completed_answers) example_deposit (example_order StatusCompleted)
      = Some (order_completed (example_env completed_answers) (example_order StatusCompleted) example_deposit, None)"
    by (rule checkOrder_completed) (simp_all add: example_deposit_fields Sprint_42 example_order_def)
  have "waitOrderComplete (example_env completed_answers) example_deposit example_world
      = ((order_completed (example_env completed_answers) (example_order StatusCompleted) example_deposit, None),
         polled (Suc 1) example_world)"
  proof (rule waitOrderComplete_polls [where orderID = 42, OF _ _ _ _ chk])
    show "pending_polls (example_env completed_answers) 42 example_deposit (calls example_world) 1"
      by (rule example_pending_polls) (simp add: completed_answers_def)
    show "GetOrderInfo (example_env completed_answers) (calls example_world + 1) BtcSky 42
            = Inr (example_order StatusCompleted)"
      by (simp add: example_env_fields example_world_fields completed_answers_def)
  qed (simp_all add: example_deposit_fields example_world_fields Atoi_42)
  then show ?thesis
    by (simp add: example_env_fields example_cfg_def example_world_fields checkOrderWait_def second_def)
qed

section \<open>Decimal arithmetic\<close>

lemma decimal_rat_Mul: "decimal_rat (decimal_Mul a b) = decimal_rat a * decimal_rat b"
  by (simp add: decimal_rat_def decimal_Mul_def power_int_add)

lemma decimal_rat_New: "decimal_rat (decimal_New v 0) = of_int v"
  by (simp add: decimal_rat_def decimal_New_def)

lemma Quo_pow10: "Quo v (10 ^ k) = trunc_rat (of_int v / 10 ^ k)"
proof (cases "0 \<le> v")
  case True
  have "\<lfloor>(of_int v :: rat) / of_int (10 ^ k)\<rfloor> = v div 10 ^ k"
    by (rule floor_divide_of_int_eq)
  moreover have "(0::rat) \<le> of_int v / 10 ^ k" using True by simp
  ultimately show ?thesis
    using True by (simp add: Quo_def trunc_rat_def sgn_if)
next
  case False
  then have neg: "v < 0" by simp
  have "\<lfloor>(of_int (- v) :: rat) / of_int (10 ^ k)\<rfloor> = (- v) div 10 ^ k"
    by (rule floor_divide_of_int_eq)
  then have "\<lceil>(of_int v :: rat) / 10 ^ k\<rceil> = - ((- v) div 10 ^ k)"
    by (simp add: ceiling_def)
  moreover have "(of_int v :: rat) / 10 ^ k < 0" using neg by (simp add: divide_neg_pos)
  ultimately show ?thesis
    using neg by (simp add: Quo_def trunc_rat_def sgn_if)
qed

lemma trunc_rat_of_int: "trunc_rat (of_int z) = z"
  by (simp add: trunc_rat_def)

lemma rescale_0: "dvalue (rescale d 0) = trunc_rat (decimal_rat d)"
proof -
  consider "dexp d < 0" | "dexp d = 0" | "0 < dexp d" by linarith
  then show ?thesis
  proof cases
    case 1
    then show ?thesis
      by (simp add: rescale_def decimal_rat_def Quo_pow10 power_int_def field_simps)
  next
    case 2
    then show ?thesis
      by (simp add: rescale_def decimal_rat_def trunc_rat_of_int)
  next
    case 3
    have "trunc_rat (of_int (dvalue d * 10 ^ nat (dexp d))) = dvalue d * 10 ^ nat (dexp d)"
      by (rule trunc_rat_of_int)
    then show ?thesis
      using 3 by (simp add: rescale_def decimal_rat_def power_int_def)
  qed
qed

lemma big_Int64_id: "- (2 ^ 63) \<le> x \<Longrightarrow> x < 2 ^ 63 \<Longrightarrow> big_Int64 x = x"
  by (simp add: big_Int64_def sint_sbintrunc' signed_take_bit_int_eq_self)

lemma decimal_IntPart_rat:
  "- (2 ^ 63) \<le> trunc_rat (decimal_rat d) \<Longrightarrow> trunc_rat (decimal_rat d) < 2 ^ 63 \<Longrightarrow>
   decimal_IntPart d = trunc_rat (decimal_rat d)"
  by (simp add: decimal_IntPart_def rescale_0 big_Int64_id)

lemma decimal_Truncate_rat:
  assumes "0 \<le> p"
  shows "decimal_rat (decimal_Truncate d p) = of_int (trunc_rat (decimal_rat d * 10 ^ nat p)) / 10 ^ nat p"
proof (cases "- p > dexp d")
  case True
  define k where "k = nat (- p - dexp d)"
  have e: "nat (- dexp d) = k + nat p" using True assms by (simp add: k_def)
  have "decimal_rat d * 10 ^ nat p = of_int (dvalue d) / 10 ^ k"
    using True assms by (simp add: decimal_rat_def power_int_def e power_add field_simps)
  moreover have "decimal_rat (decimal_Truncate d p) = of_int (Quo (dvalue d) (10 ^ k)) / 10 ^ nat p"
    using True assms by (simp add: decimal_Truncate_def rescale_def decimal_rat_def power_int_def k_def field_simps)
  ultimately show ?thesis by (simp add: Quo_pow10)
next
  case False
  define k where "k = nat (dexp d + p)"
  have "decimal_rat d * 10 ^ nat p = of_int (dvalue d * 10 ^ k)"
  proof (cases "0 \<le> dexp d")
    case True
    then show ?thesis using assms by (simp add: decimal_rat_def power_int_def k_def nat_add_distrib power_add)
  next
    case neg: False
    then have "nat p = k + nat (- dexp d)" using False assms by (simp add: k_def)
    then show ?thesis using neg
      by (simp add: decimal_rat_def power_int_def power_add power_one_over field_simps)
  qed
  then have "trunc_rat (decimal_rat d * 10 ^ nat p) = dvalue d * 10 ^ k"
    by (simp only: trunc_rat_of_int)
  moreover have "of_int (dvalue d * 10 ^ k) / 10 ^ nat p = decimal_rat d"
    using \<open>decimal_rat d * 10 ^ nat p = of_int (dvalue d * 10 ^ k)\<close>
    by (metis nonzero_mult_div_cancel_right power_not_zero zero_neq_numeral)
  ultimately show ?thesis using False assms by (simp add: decimal_Truncate_def)
qed

section \<open>Completed orders\<close>

lemma calculateSkyBought_exact:
  assumes "fits_int64 (trunc_rat (sky_bought_exact ord))"
  shows "calculateSkyBought ord =
           (if trunc_rat (sky_bought_exact ord) < 0 then Inl errCompletedAmountNegative
            else Inr (trunc_rat (sky_bought_exact ord)))"
proof -
  have "decimal_rat (decimal_Mul (Order_CompletedAmount ord) (decimal_New droplet_Multiplier 0))
          = sky_bought_exact ord"
    by (simp add: decimal_rat_Mul decimal_rat_New sky_bought_exact_def)
  then have "decimal_IntPart (decimal_Mul (Order_CompletedAmount ord) (decimal_New droplet_Multiplier 0))
          = trunc_rat (sky_bought_exact ord)"
    using assms decimal_IntPart_rat
      [of "decimal_Mul (Order_CompletedAmount ord) (decimal_New droplet_Multiplier 0)"]
    by (simp add: fits_int64_def)
  then show ?thesis by (simp add: calculateSkyBought_def)
qed

lemma calculateBtcSpent_exact:
  assumes "fits_int64 (trunc_rat (btc_spent_exact ord))"
  shows "calculateBtcSpent ord = trunc_rat (btc_spent_exact ord)"
proof -
  have "decimal_rat (decimal_Mul (decimal_Mul (Order_CompletedAmount ord) (Order_AvgPrice ord))
                       (decimal_New SatoshisPerBTC 0))
          = btc_spent_exact ord"
    by (simp add: decimal_rat_Mul decimal_rat_New btc_spent_exact_def)
  then show ?thesis
    using assms decimal_IntPart_rat
      [of "decimal_Mul (decimal_Mul (Order_CompletedAmount ord) (Order_AvgPrice ord))
             (decimal_New SatoshisPerBTC 0)"]
    by (simp add: calculateBtcSpent_def fits_int64_def)
qed

text \<open>
  Claim C4, as the code has it. When the order of a deposit at
  \<open>StatusWaitPassthroughOrderComplete\<close> is answered, after any number of polls that
  found it in a transitory status, with status \<open>Completed\<close>, and the amounts are within
  the range of \<open>int64\<close>, then: \<open>calculateSkyBought\<close> yields \<open>CompletedAmount\<close> times the
  droplets per SKY rounded towards zero, and fails exactly when that whole number is
  negative, in which case \<open>SkyBought\<close> is recorded as 0 and processing goes on;
  \<open>DepositValueSpent\<close> is \<open>CompletedAmount\<close> times \<open>AvgPrice\<close> times the satoshis per BTC
  rounded towards zero; the status text, \<open>Final = True\<close>, \<open>Original\<close>, \<open>CompletedAmount\<close>
  and \<open>Price\<close> are recorded on \<open>Passthrough.Order\<close>; and the deposit is persisted with
  \<open>StatusWaitSend\<close> and returned without an error.
\<close>

theorem completed_order_is_recorded:
  assumes "ValidateForStatus env di = None" and "CoinType di = CoinTypeBTC"
    and "Status di = StatusWaitPassthroughOrderComplete"
    and "Atoi (OrderID (Order (Passthrough di))) = Inr orderID"
    and "pending_polls env orderID di (calls w) k" and "k < ticks w"
    and "GetOrderInfo env (calls w + k) BtcSky orderID = Inr ord"
    and "Sprint_int (Order_OrderID ord) = OrderID (Order (Passthrough di))"
    and "Order_CID ord = Some (CustomerID (Order (Passthrough di)))"
    and "Order_Status ord = StatusCompleted"
    and "stored_deposit w (DepositID di) = Some dpi"
    and "Status dpi = StatusWaitPassthroughOrderComplete"
    and "fits_int64 (trunc_rat (sky_bought_exact ord))"
    and "fits_int64 (trunc_rat (btc_spent_exact ord))"
  shows "\<exists>w' final.
           handleDepositInfoState env di w = ((final, None), w')
         \<and> stored_deposit w' (DepositID di) = Some final
         \<and> Status final = StatusWaitSend
         \<and> calculateSkyBought ord =
             (if trunc_rat (sky_bought_exact ord) < 0 then Inl errCompletedAmountNegative
              else Inr (trunc_rat (sky_bought_exact ord)))
         \<and> SkyBought (Passthrough final) = max 0 (trunc_rat (sky_bought_exact ord))
         \<and> DepositValueSpent (Passthrough final) = trunc_rat (btc_spent_exact ord)
         \<and> PassthroughOrder_Status (Order (Passthrough final)) = OrderStatus_String env StatusCompleted
         \<and> Final (Order (Passthrough final)) = True
         \<and> Original (Order (Passthrough final)) = ord
         \<and> CompletedAmount (Order (Passthrough final)) = decimal_String (Order_CompletedAmount ord)
         \<and> Price (Order (Passthrough final)) = decimal_String (Order_AvgPrice ord)"
proof -
  have chk: "checkOrder env di ord = Some (order_completed env ord di, None)"
    using assms(8-10) by (rule checkOrder_completed)
  have "Status dpi = StatusWaitPassthroughOrderComplete \<or> Status dpi = StatusWaitSend"
    using assms(12) by simp
  from handle_decided [OF assms(1-7) chk _ assms(11) this]
  obtain w' where
    "handleDepositInfoState env di w
       = (((order_completed env ord di)\<lparr>Status := StatusWaitSend, UpdatedAt := clock (store w)\<rparr>, None), w')"
    "stored_deposit w' (DepositID di)
       = Some ((order_completed env ord di)\<lparr>Status := StatusWaitSend, UpdatedAt := clock (store w)\<rparr>)"
    by auto
  moreover note calculateSkyBought_exact [OF assms(13)] calculateBtcSpent_exact [OF assms(14)]
  ultimately show ?thesis
    using assms(10) by (simp add: order_completed_def)
qed

lemma example_order_exact:
  "sky_bought_exact (example_order st) = 123456700"
  "btc_spent_exact (example_order st) = 98765360"
  by (simp_all add: sky_bought_exact_def btc_spent_exact_def example_order_def decimal_rat_def
        decimal_New_def power_int_def power_one_over droplet_Multiplier_def SatoshisPerBTC_def)

lemma trunc_rat_numeral: "trunc_rat (numeral n) = numeral n"
  by (simp add: trunc_rat_def)

theorem completed_order_is_recorded_witness:
  "\<exists>w' final.
     handleDepositInfoState (example_env completed_answers) example_deposit example_world = ((final, None), w')
   \<and> stored_deposit w' ''t:2'' = Some final
   \<and> Status final = StatusWaitSend
   \<and> SkyBought (Passthrough final) = 123456700
   \<and> DepositValueSpent (Passthrough final) = 98765360
   \<and> Final (Order (Passthrough final)) = True"
proof -
  let ?ord = "example_order StatusCompleted"
  have "\<exists>w' final.
           handleDepositInfoState (example_env completed_answers) example_deposit example_world = ((final, None), w')
         \<and> stored_deposit w' (DepositID example_deposit) = Some final
         \<and> Status final = StatusWaitSend
         \<and> calculateSkyBought ?ord =
             (if trunc_rat (sky_bought_exact ?ord) < 0 then Inl errCompletedAmountNegative
              else Inr (trunc_rat (sky_bought_exact ?ord)))
         \<and> SkyBought (Passthrough final) = max 0 (trunc_rat (sky_bought_exact ?ord))
         \<and> DepositValueSpent (Passthrough final) = trunc_rat (btc_spent_exact ?ord)
         \<and> PassthroughOrder_Status (Order (Passthrough final))
             = OrderStatus_String (example_env completed_answers) StatusCompleted
         \<and> Final (Order (Passthrough final)) = True
         \<and> Original (Order (Passthrough final)) = ?ord
         \<and> CompletedAmount (Order (Passthrough final)) = decimal_String (Order_CompletedAmount ?ord)
         \<and> Price (Order (Passthrough final)) = decimal_String (Order_AvgPrice ?ord)"
  proof (rule completed_order_is_recorded [where orderID = 42 and k = 1 and dpi = example_deposit])
    show "pending_polls (example_env completed_answers) 42 example_deposit (calls example_world) 1"
      by (rule example_pending_polls) (simp add: completed_answers_def)
    show "GetOrderInfo (example_env completed_answers) (calls example_world + 1) BtcSky 42 = Inr ?ord"
      by (simp add: example_env_fields example_world_fields completed_answers_def)
    show "fits_int64 (trunc_rat (sky_bought_exact ?ord))"
      by (simp add: example_order_exact trunc_rat_numeral fits_int64_def)
    show "fits_int64 (trunc_rat (btc_spent_exact ?ord))"
      by (simp add: example_order_exact trunc_rat_numeral fits_int64_def)
  qed (simp_all add: example_env_fields example_deposit_fields example_world_fields Atoi_42
         Sprint_42 example_order_def)
  then show ?thesis
    by (auto simp: example_deposit_fields example_order_exact trunc_rat_numeral)
qed

text \<open>
  An order whose completed amount is \<open>-0.0000001\<close> SKY: the product with the droplets
  per SKY is \<open>-0.1\<close>, which is negative, and \<open>calculateSkyBought\<close> does not fail; it
  returns 0 droplets.
\<close>

theorem negative_product_counterexample:
  "sky_bought_exact tiny_negative_order < 0 \<and> calculateSkyBought tiny_negative_order = Inr 0"
  by (simp add: tiny_negative_order_def example_order_def sky_bought_exact_def calculateSkyBought_def
        decimal_rat_def decimal_IntPart_def decimal_Mul_def decimal_New_def droplet_Multiplier_def
        rescale_def Quo_def big_Int64_def power_int_def power_one_over)

section \<open>From WaitDecide to WaitPassthrough\<close>

lemma calculateRequestedAmount_rat:
  assumes "0 \<le> PricePrecision env"
  shows "decimal_rat (calculateRequestedAmount env v)
           = of_int (trunc_rat (of_int v / 10 ^ 8 * 10 ^ nat (PricePrecision env)))
               / 10 ^ nat (PricePrecision env)"
proof -
  have v: "decimal_rat (decimal_New v (- SatoshiExponent)) = of_int v / 10 ^ 8"
    by (simp add: decimal_rat_def decimal_New_def SatoshiExponent_def power_int_def power_one_over)
  have "decimal_rat (calculateRequestedAmount env v)
          = decimal_rat (decimal_Truncate (decimal_New v (- SatoshiExponent)) (PricePrecision env))"
    by (simp add: calculateRequestedAmount_def)
  also have "\<dots> = of_int (trunc_rat (decimal_rat (decimal_New v (- SatoshiExponent))
                 * 10 ^ nat (PricePrecision env))) / 10 ^ nat (PricePrecision env)"
    using assms by (rule decimal_Truncate_rat)
  finally show ?thesis by (simp only: v)
qed

lemma handle_WaitDecide:
  assumes "ValidateForStatus env di = None" "CoinType di = CoinTypeBTC"
    and "Status di = StatusWaitDecide"
  shows "handleDepositInfoState env di w = update_deposit (DepositID di) (set_WaitPassthrough env) w"
  using assms by (simp add: handleDepositInfoState_def)

text \<open>
  Claim C5. For a deposit at \<open>StatusWaitDecide\<close> (valid, of coin type BTC, and stored at
  that status), \<open>handleDepositInfoState\<close> makes one call of \<open>UpdateDepositInfo\<close> and
  nothing else; the record it stores and returns has \<open>Status = StatusWaitPassthrough\<close>,
  \<open>Passthrough.ExchangeName\<close> the name of the C2CX exchange, \<open>Passthrough.RequestedAmount\<close>
  the text of the deposit value in BTC (satoshis divided by \<open>10 ^ 8\<close>) cut off, towards
  zero, after as many decimals as the price precision of the BTC/SKY pair, and
  \<open>Passthrough.Order.CustomerID\<close> equal to its \<open>DepositID\<close>.
\<close>

theorem WaitDecide_sets_passthrough_request:
  assumes "ValidateForStatus env di = None" and "CoinType di = CoinTypeBTC"
    and "Status di = StatusWaitDecide"
    and "stored_deposit w (DepositID di) = Some dpi"
    and "Status dpi = StatusWaitDecide"
    and "0 \<le> PricePrecision env"
  shows "\<exists>r. handleDepositInfoState env di w
               = ((r, None), w\<lparr>store := snd (UpdateDepositInfo (DepositID di) (set_WaitPassthrough env) (store w))\<rparr>)
           \<and> map_of (deposit_info (snd (UpdateDepositInfo (DepositID di) (set_WaitPassthrough env) (store w))))
                (DepositID di) = Some r
           \<and> Status r = StatusWaitPassthrough
           \<and> ExchangeName (Passthrough r) = PassthroughExchangeC2CX
           \<and> RequestedAmount (Passthrough r) = decimal_String (calculateRequestedAmount env (DepositValue dpi))
           \<and> decimal_rat (calculateRequestedAmount env (DepositValue dpi))
               = of_int (trunc_rat (of_int (DepositValue dpi) / 10 ^ 8 * 10 ^ nat (PricePrecision env)))
                   / 10 ^ nat (PricePrecision env)
           \<and> CustomerID (Order (Passthrough r)) = DepositID r
           \<and> DepositID r = DepositID dpi \<and> DepositValue r = DepositValue dpi"
proof -
  have m: "map_of (deposit_info (store w)) (DepositID di) = Some dpi"
    using assms(4) by (simp add: stored_deposit_def)
  have vt: "valid_transition (Status dpi) (Status (set_WaitPassthrough env dpi))"
    using assms(5) by (simp add: valid_transition_def set_WaitPassthrough_def)
  note u = UpdateDepositInfo_ok [of "store w" "DepositID di" dpi "set_WaitPassthrough env", OF m vt]
  have "handleDepositInfoState env di w
          = (((set_WaitPassthrough env dpi)\<lparr>UpdatedAt := clock (store w)\<rparr>, None),
             w\<lparr>store := snd (UpdateDepositInfo (DepositID di) (set_WaitPassthrough env) (store w))\<rparr>)"
    by (simp add: handle_WaitDecide [OF assms(1-3)] update_deposit_def u)
  moreover have "map_of (deposit_info (snd (UpdateDepositInfo (DepositID di) (set_WaitPassthrough env) (store w))))
                (DepositID di) = Some ((set_WaitPassthrough env dpi)\<lparr>UpdatedAt := clock (store w)\<rparr>)"
    by (simp add: u map_of_alist_put)
  ultimately show ?thesis
    using calculateRequestedAmount_rat [OF assms(6), of "DepositValue dpi"]
    by (simp add: set_WaitPassthrough_def)
qed

lemma new_deposit_fields:
  "Status new_deposit = StatusWaitDecide"
  "CoinType new_deposit = CoinTypeBTC"
  "DepositID new_deposit = ''u:0''"
  "DepositValue new_deposit = 123456789"
  by (simp_all add: new_deposit_def DepositInfo_zero_def CoinTypeBTC_def)

lemma new_world_fields:
  "stored_deposit new_world ''u:0'' = Some new_deposit"
  "ticks new_world = 10" "calls new_world = 0"
  by (simp_all add: new_world_def stored_deposit_def)

lemma example_requested_amount:
  "decimal_String (calculateRequestedAmount (example_env a) 123456789) = ''1.2345''"
  by (simp add: calculateRequestedAmount_def example_env_fields decimal_Truncate_def decimal_New_def
        SatoshiExponent_def rescale_def Quo_def decimal_String_def nat_digits.simps trim_zeros_def)

theorem WaitDecide_sets_passthrough_request_witness:
  "\<exists>r w'. handleDepositInfoState (example_env completed_answers) new_deposit new_world = ((r, None), w')
     \<and> Status r = StatusWaitPassthrough
     \<and> RequestedAmount (Passthrough r) = ''1.2345''
     \<and> CustomerID (Order (Passthrough r)) = ''u:0''"
proof -
  let ?env = "example_env completed_answers"
  have "\<exists>r. handleDepositInfoState ?env new_deposit new_world
               = ((r, None), new_world\<lparr>store := snd (UpdateDepositInfo (DepositID new_deposit)
                     (set_WaitPassthrough ?env) (store new_world))\<rparr>)
           \<and> map_of (deposit_info (snd (UpdateDepositInfo (DepositID new_deposit)
                  (set_WaitPassthrough ?env) (store new_world))))
                (DepositID new_deposit) = Some r
           \<and> Status r = StatusWaitPassthrough
           \<and> ExchangeName (Passthrough r) = PassthroughExchangeC2CX
           \<and> RequestedAmount (Passthrough r)
               = decimal_String (calculateRequestedAmount ?env (DepositValue new_deposit))
           \<and> decimal_rat (calculateRequestedAmount ?env (DepositValue new_deposit))
               = of_int (trunc_rat (of_int (DepositValue new_deposit) / 10 ^ 8 * 10 ^ nat (PricePrecision ?env)))
                   / 10 ^ nat (PricePrecision ?env)
           \<and> CustomerID (Order (Passthrough r)) = DepositID r
           \<and> DepositID r = DepositID new_deposit \<and> DepositValue r = DepositValue new_deposit"
    by (rule WaitDecide_sets_passthrough_request [where dpi = new_deposit])
       (simp_all add: example_env_fields new_deposit_fields new_world_fields)
  then show ?thesis
    by (auto simp: new_deposit_fields example_requested_amount)
qed

section \<open>The retry loop\<close>

lemma UpdateDepositInfo_error:
  assumes "UpdateDepositInfo k f s = ((d, Some e), s')"
  shows "s' = s \<and> d = DepositInfo_zero \<and> (e = ErrNoDepositInfo \<or> e = ErrInvalidTransition)"
  using assms by (auto simp: UpdateDepositInfo_def Let_def split: option.splits if_splits)

lemma update_deposit_error:
  assumes "update_deposit k f w = ((d, Some e), w')"
  shows "store w' = store w \<and> d = DepositInfo_zero \<and> (e = ErrNoDepositInfo \<or> e = ErrInvalidTransition)"
proof -
  obtain r s where u: "UpdateDepositInfo k f (store w) = (r, s)" by (metis surj_pair)
  with assms have "r = (d, Some e)" "w' = w\<lparr>store := s\<rparr>"
    by (simp_all add: update_deposit_def)
  with UpdateDepositInfo_error [of k f "store w" d e s] u show ?thesis by simp
qed

lemma placeOrder_store: "store (snd (placeOrder env di w)) = store w"
  by (simp add: placeOrder_def split: sum.splits)

lemma waitCompletedLoop_store:
  "store (snd (waitCompletedLoop env orderID di n w)) = store w"
  by (induction n arbitrary: w) (auto simp: Let_def split: sum.splits option.splits)

lemma waitOrderComplete_store: "store (snd (waitOrderComplete env di w)) = store w"
  using waitCompletedLoop_store by (simp add: waitOrderComplete_def split: sum.splits)

lemma handle_error:
  assumes "handleDepositInfoState env di w = ((di1, Some e), w1)"
  shows "store w1 = store w
         \<and> (di1 = di \<or> di1 = DepositInfo_zero \<and> (e = ErrNoDepositInfo \<or> e = ErrInvalidTransition))"
proof (cases "ValidateForStatus env di")
  case (Some err)
  with assms show ?thesis by (simp add: handleDepositInfoState_def)
next
  case None
  show ?thesis
  proof (cases "CoinType di = CoinTypeBTC")
    case False
    with None assms show ?thesis by (simp add: handleDepositInfoState_def)
  next
    case True
    note h = assms [unfolded handleDepositInfoState_def, simplified None True, simplified]
    show ?thesis
    proof (cases "Status di")
      case StatusWaitDecide
      with h update_deposit_error show ?thesis by simp
    next
      case StatusWaitPassthrough
      obtain r w2 where p: "placeOrder env di w = (r, w2)" by (metis surj_pair)
      have s2: "store w2 = store w" using placeOrder_store [of env di w] p by simp
      show ?thesis
      proof (cases r)
        case (Inl err)
        with h StatusWaitPassthrough p s2 show ?thesis by simp
      next
        case (Inr orderID)
        with h StatusWaitPassthrough p
        have "update_deposit (DepositID di) (set_OrderPlaced orderID) w2 = ((di1, Some e), w1)" by simp
        from update_deposit_error [OF this] s2 show ?thesis by simp
      qed
    next
      case StatusWaitPassthroughOrderComplete
      obtain nd err w2 where p: "waitOrderComplete env di w = ((nd, err), w2)" by (metis surj_pair)
      have s2: "store w2 = store w" using waitOrderComplete_store [of env di w] p by simp
      show ?thesis
      proof (cases "err = None \<or> err = Some ErrFatalOrderStatus")
        case True
        with h StatusWaitPassthroughOrderComplete p
        have "update_deposit (DepositID di) (set_WaitSend nd) w2 = ((di1, Some e), w1)" by auto
        from update_deposit_error [OF this] s2 show ?thesis by simp
      next
        case False
        with h StatusWaitPassthroughOrderComplete p s2 show ?thesis by auto
      qed
    qed (use h in simp_all)
  qed
qed

lemma processWaitDecideDeposit_round:
  assumes "ticks w = Suc n"
  shows "processWaitDecideDeposit env di w =
           (case processRound env di (w\<lparr>ticks := n\<rparr>) of
              (Inl r, w') \<Rightarrow> (r, w')
            | (Inr di', w') \<Rightarrow> processWaitDecideDeposit env di' w')"
  using assms by (subst processWaitDecideDeposit.simps) simp

lemma processRound_retry:
  assumes "handleDepositInfoState env di w = ((di, Some e), w1)"
    and "classify (Some e) = retry \<and> d = RequestFailureWait (C2CX (cfg env))
         \<or> classify (Some e) = retryRatelimited \<and> d = RatelimitWait (C2CX (cfg env))"
  shows "(case processRound env di w of
              (Inl r, w') \<Rightarrow> (r, w')
            | (Inr di', w') \<Rightarrow> processWaitDecideDeposit env di' w') = retry_after env di e d w1"
  using assms
  by (auto simp: processRound_def retry_after_def wait_or_quit_def Let_def split: nat.splits)

lemma classify_cases:
  "HasPrefix m ''limit value:'' \<Longrightarrow> classify (Some (APIError m)) = fail"
  "classify (Some (APIError ''Too Many Requests'')) = retryRatelimited"
  "\<not> HasPrefix m ''limit value:'' \<Longrightarrow> m \<noteq> ''Too Many Requests'' \<Longrightarrow> classify (Some (APIError m)) = retry"
  "classify (Some (C2CXError m)) = retry"
  "classify (Some (NetError m)) = retry"
  "classify (Some errQuit) = quit"
  "(\<forall>m. e \<noteq> APIError m \<and> e \<noteq> C2CXError m \<and> e \<noteq> NetError m) \<Longrightarrow> e \<noteq> errQuit \<Longrightarrow> classify (Some e) = fail"
  "classify None = no_action"
  by (auto simp: classify_def HasPrefix_def split: error.splits)

text \<open>
  Claim C2. Let a round of \<open>processWaitDecideDeposit\<close> (the quit channel not yet closed)
  call \<open>handleDepositInfoState\<close> and get an error. Then the store is as it was before the
  call, and the loop goes on by the error alone:
  an \<open>APIError\<close> whose message starts with \<open>limit value:\<close> is returned as the result, with
  the deposit as it was;
  an \<open>APIError\<close> with message \<open>Too Many Requests\<close> is retried with the same deposit after a
  wait of \<open>RatelimitWait\<close>;
  any other \<open>APIError\<close>, any other c2cx error and any \<open>net.Error\<close> is retried with the same
  deposit after a wait of \<open>RequestFailureWait\<close>;
  \<open>errQuit\<close> ends the loop without an error;
  every other error is returned as the result.
\<close>

theorem retry_loop_classifies_errors:
  assumes "ticks w = Suc n"
    and "handleDepositInfoState env di (w\<lparr>ticks := n\<rparr>) = ((di1, Some e), w1)"
  shows "store w1 = store w
     \<and> ((\<exists>m. e = APIError m \<and> HasPrefix m ''limit value:'') \<longrightarrow>
          di1 = di \<and> processWaitDecideDeposit env di w = ((di, Some e), w1\<lparr>pstatus := Some e\<rparr>))
     \<and> (e = APIError ''Too Many Requests'' \<longrightarrow>
          di1 = di \<and> processWaitDecideDeposit env di w
                       = retry_after env di e (RatelimitWait (C2CX (cfg env))) w1)
     \<and> ((\<exists>m. e = APIError m \<and> \<not> HasPrefix m ''limit value:'' \<and> m \<noteq> ''Too Many Requests''
              \<or> e = C2CXError m \<or> e = NetError m) \<longrightarrow>
          di1 = di \<and> processWaitDecideDeposit env di w
                       = retry_after env di e (RequestFailureWait (C2CX (cfg env))) w1)
     \<and> (e = errQuit \<longrightarrow>
          processWaitDecideDeposit env di w = ((di1, None), w1\<lparr>pstatus := Some e\<rparr>))
     \<and> ((\<forall>m. e \<noteq> APIError m \<and> e \<noteq> C2CXError m \<and> e \<noteq> NetError m) \<and> e \<noteq> errQuit \<longrightarrow>
          processWaitDecideDeposit env di w = ((di1, Some e), w1\<lparr>pstatus := Some e\<rparr>))"
proof -
  note h = assms(2)
  note unfold = processWaitDecideDeposit_round [OF assms(1), of env di]
  from handle_error [OF h] have st: "store w1 = store w"
    and d: "di1 = di \<or> di1 = DepositInfo_zero \<and> (e = ErrNoDepositInfo \<or> e = ErrInvalidTransition)"
    by simp_all
  have same: "di1 = di" if "\<exists>m. e = APIError m \<or> e = C2CXError m \<or> e = NetError m"
    using d that by (auto simp: ErrNoDepositInfo_def ErrInvalidTransition_def)
  have failing: "processWaitDecideDeposit env di w = ((di1, Some e), w1\<lparr>pstatus := Some e\<rparr>)"
    if "classify (Some e) = fail"
    using that h by (simp add: unfold processRound_def)
  have quitting: "processWaitDecideDeposit env di w = ((di1, None), w1\<lparr>pstatus := Some e\<rparr>)"
    if "classify (Some e) = quit"
    using that h by (simp add: unfold processRound_def)
  have retrying: "processWaitDecideDeposit env di w = retry_after env di e d w1"
    if "di1 = di" "classify (Some e) = retry \<and> d = RequestFailureWait (C2CX (cfg env))
         \<or> classify (Some e) = retryRatelimited \<and> d = RatelimitWait (C2CX (cfg env))" for d
    using processRound_retry [OF h [unfolded that(1)] that(2)] by (simp add: unfold)
  have c1: "(\<exists>m. e = APIError m \<and> HasPrefix m ''limit value:'') \<longrightarrow>
          di1 = di \<and> processWaitDecideDeposit env di w = ((di, Some e), w1\<lparr>pstatus := Some e\<rparr>)"
    using same failing classify_cases(1) by blast
  have c2: "e = APIError ''Too Many Requests'' \<longrightarrow>
          di1 = di \<and> processWaitDecideDeposit env di w
                       = retry_after env di e (RatelimitWait (C2CX (cfg env))) w1"
    using same retrying classify_cases(2) by blast
  have c3: "(\<exists>m. e = APIError m \<and> \<not> HasPrefix m ''limit value:'' \<and> m \<noteq> ''Too Many Requests''
              \<or> e = C2CXError m \<or> e = NetError m) \<longrightarrow>
          di1 = di \<and> processWaitDecideDeposit env di w
                       = retry_after env di e (RequestFailureWait (C2CX (cfg env))) w1"
    using same retrying classify_cases(3,4,5) by blast
  have c4: "e = errQuit \<longrightarrow>
          processWaitDecideDeposit env di w = ((di1, None), w1\<lparr>pstatus := Some e\<rparr>)"
    using quitting classify_cases(6) by blast
  have c5: "(\<forall>m. e \<noteq> APIError m \<and> e \<noteq> C2CXError m \<and> e \<noteq> NetError m) \<and> e \<noteq> errQuit \<longrightarrow>
          processWaitDecideDeposit env di w = ((di1, Some e), w1\<lparr>pstatus := Some e\<rparr>)"
    using failing classify_cases(7) by blast
  from st c1 c2 c3 c4 c5 show ?thesis by (intro conjI)
qed

lemma example_ratelimited_step:
  "handleDepositInfoState (example_env ratelimited_answers) example_deposit (example_world\<lparr>ticks := 9\<rparr>)
     = ((example_deposit, Some (APIError ''Too Many Requests'')), polled 1 (example_world\<lparr>ticks := 9\<rparr>))"
proof (rule handle_wait_failed)
  have "waitCompletedLoop (example_env ratelimited_answers) 42 example_deposit 9 (example_world\<lparr>ticks := 9\<rparr>)
      = ((example_deposit, Some (APIError ''Too Many Requests'')), polled 1 (example_world\<lparr>ticks := 9\<rparr>))"
    by (rule waitCompletedLoop_failed)
       (simp_all add: example_env_fields example_world_fields ratelimited_answers_def)
  then show "waitOrderComplete (example_env ratelimited_answers) example_deposit (example_world\<lparr>ticks := 9\<rparr>)
      = ((example_deposit, Some (APIError ''Too Many Requests'')), polled 1 (example_world\<lparr>ticks := 9\<rparr>))"
    by (simp add: waitOrderComplete_def example_deposit_fields Atoi_42)
qed (simp_all add: example_env_fields example_deposit_fields)

theorem retry_loop_classifies_errors_witness:
  "processWaitDecideDeposit (example_env ratelimited_answers) example_deposit example_world
     = retry_after (example_env ratelimited_answers) example_deposit (APIError ''Too Many Requests'')
         30000000000 (polled 1 (example_world\<lparr>ticks := 9\<rparr>))
   \<and> store (polled 1 (example_world\<lparr>ticks := 9\<rparr>)) = store example_world"
proof -
  have t: "ticks example_world = Suc 9"
    by (simp add: example_world_fields)
  from retry_loop_classifies_errors [OF t example_ratelimited_step] show ?thesis
    by (simp add: example_env_fields example_cfg_def second_def)
qed

section \<open>The startup sweep\<close>

lemma map_fst_alist_put:
  "k \<in> fst ` set kvs \<Longrightarrow> map fst (alist_put k v kvs) = map fst kvs"
  by (induction kvs) (auto simp: rev_image_eqI)

lemma build_cidToDeposits_ok:
  assumes "\<forall>d \<in> set ds. customer_id d \<noteq> []" "distinct (map customer_id ds)"
  shows "\<exists>m. build_cidToDeposits ds m0 = Inr m
           \<and> (\<forall>c d. m c = Some d \<longleftrightarrow>
                 (d \<in> set ds \<and> customer_id d = c) \<or> (c \<notin> customer_id ` set ds \<and> m0 c = Some d))"
  using assms
proof (induction ds arbitrary: m0)
  case Nil
  then show ?case by simp
next
  case (Cons x xs)
  let ?m1 = "m0(customer_id x \<mapsto> x)"
  from Cons.prems have ne: "CustomerID (Order (Passthrough x)) \<noteq> []"
    by (simp add: customer_id_def)
  from Cons.prems have "\<forall>d \<in> set xs. customer_id d \<noteq> []" "distinct (map customer_id xs)"
    by simp_all
  from Cons.IH [OF this, of ?m1] obtain m where
    m: "build_cidToDeposits xs ?m1 = Inr m"
    and ch: "\<forall>c d. m c = Some d \<longleftrightarrow>
                 (d \<in> set xs \<and> customer_id d = c) \<or> (c \<notin> customer_id ` set xs \<and> ?m1 c = Some d)"
    by blast
  have "build_cidToDeposits (x # xs) m0 = Inr m"
    using ne m by (simp add: customer_id_def)
  moreover have "\<forall>c d. m c = Some d \<longleftrightarrow>
       (d \<in> set (x # xs) \<and> customer_id d = c) \<or> (c \<notin> customer_id ` set (x # xs) \<and> m0 c = Some d)"
    using ch Cons.prems(2) by (auto split: if_splits)
  ultimately show ?case by blast
qed

lemma set_OrderPlaced_again:
  "set_OrderPlaced a ((set_OrderPlaced b d)\<lparr>UpdatedAt := t\<rparr>) = (set_OrderPlaced a d)\<lparr>UpdatedAt := t\<rparr>"
  by (simp add: set_OrderPlaced_def)

lemma set_OrderPlaced_Status [simp]:
  "Status (set_OrderPlaced a d) = StatusWaitPassthroughOrderComplete"
  by (simp add: set_OrderPlaced_def)

lemma well_keyed_lookup:
  assumes "well_keyed s" "d \<in> set (map snd (deposit_info s))"
  shows "map_of (deposit_info s) (DepositID d) = Some d"
proof -
  from assms(2) obtain k where kd: "(k, d) \<in> set (deposit_info s)" by auto
  with assms(1) have "DepositID d = k" by (auto simp: well_keyed_def)
  with kd assms(1) show ?thesis by (simp add: well_keyed_def)
qed

lemma well_keyed_key:
  assumes "well_keyed s" "map_of (deposit_info s) k = Some d"
  shows "DepositID d = k \<and> d \<in> set (map snd (deposit_info s))"
proof -
  from assms(2) have "(k, d) \<in> set (deposit_info s)" by (rule map_of_SomeD)
  with assms(1) show ?thesis by (force simp: well_keyed_def)
qed

lemma sweep_inv_start: "sweep_inv s0 [] s0"
  by (simp add: sweep_inv_def swept_by_def recovered_by_def)

lemma swept_skip:
  assumes "swept_by processed d cur"
    and "Status d = StatusWaitPassthrough \<longrightarrow> Order_CID ord \<noteq> Some (customer_id d)"
  shows "swept_by (processed @ [ord]) d cur"
proof -
  have same: "recovered_by (processed @ [ord]) d = recovered_by processed d"
    using assms(2) by (auto simp: recovered_by_def)
  show ?thesis
  proof (cases "recovered_by processed d")
    case True
    with assms(1) have "\<exists>ord' t. ord' \<in> set processed \<and> Order_CID ord' = Some (customer_id d)
             \<and> cur = Some ((set_OrderPlaced (Order_OrderID ord') d)\<lparr>UpdatedAt := t\<rparr>)"
      by (simp add: swept_by_def)
    then obtain ord' t where "ord' \<in> set (processed @ [ord])" "Order_CID ord' = Some (customer_id d)"
      "cur = Some ((set_OrderPlaced (Order_OrderID ord') d)\<lparr>UpdatedAt := t\<rparr>)"
      by auto
    then have "\<exists>ord' t. ord' \<in> set (processed @ [ord]) \<and> Order_CID ord' = Some (customer_id d)
             \<and> cur = Some ((set_OrderPlaced (Order_OrderID ord') d)\<lparr>UpdatedAt := t\<rparr>)"
      by blast
    with True same show ?thesis by (simp add: swept_by_def)
  next
    case False
    with assms(1) same show ?thesis by (simp add: swept_by_def)
  qed
qed

lemma swept_hit:
  assumes "Status d = StatusWaitPassthrough" "Order_CID ord = Some (customer_id d)"
  shows "swept_by (processed @ [ord]) d (Some ((set_OrderPlaced (Order_OrderID ord) d)\<lparr>UpdatedAt := t\<rparr>))"
proof -
  have "recovered_by (processed @ [ord]) d"
    using assms by (auto simp: recovered_by_def)
  moreover have "\<exists>ord' t'. ord' \<in> set (processed @ [ord]) \<and> Order_CID ord' = Some (customer_id d)
      \<and> Some ((set_OrderPlaced (Order_OrderID ord) d)\<lparr>UpdatedAt := t\<rparr>)
          = Some ((set_OrderPlaced (Order_OrderID ord') d)\<lparr>UpdatedAt := t'\<rparr>)"
    using assms(2) by (intro exI [of _ ord] exI [of _ t]) simp
  ultimately show ?thesis
    by (simp only: swept_by_def if_True)
qed

lemma swept_current:
  assumes "swept_by processed d cur" "Status d = StatusWaitPassthrough"
  shows "\<exists>c. cur = Some c
           \<and> valid_transition (Status c) (Status (set_OrderPlaced a c))
           \<and> (set_OrderPlaced a c)\<lparr>UpdatedAt := t\<rparr> = (set_OrderPlaced a d)\<lparr>UpdatedAt := t\<rparr>"
proof (cases "recovered_by processed d")
  case True
  with assms(1) have "\<exists>ord t'. ord \<in> set processed \<and> Order_CID ord = Some (customer_id d)
      \<and> cur = Some ((set_OrderPlaced (Order_OrderID ord) d)\<lparr>UpdatedAt := t'\<rparr>)"
    by (simp only: swept_by_def if_True)
  then obtain ord where "\<exists>t'. ord \<in> set processed \<and> Order_CID ord = Some (customer_id d)
      \<and> cur = Some ((set_OrderPlaced (Order_OrderID ord) d)\<lparr>UpdatedAt := t'\<rparr>)" ..
  then obtain t' where "ord \<in> set processed \<and> Order_CID ord = Some (customer_id d)
      \<and> cur = Some ((set_OrderPlaced (Order_OrderID ord) d)\<lparr>UpdatedAt := t'\<rparr>)" ..
  then have "cur = Some ((set_OrderPlaced (Order_OrderID ord) d)\<lparr>UpdatedAt := t'\<rparr>)"
    by (elim conjE)
  then show ?thesis
    by (simp add: valid_transition_def set_OrderPlaced_def)
next
  case False
  with assms(1) have "cur = Some d" by (simp add: swept_by_def)
  then show ?thesis
    using assms(2) by (simp add: valid_transition_def)
qed

lemma sweep_inv_skip:
  assumes "sweep_inv s0 processed s"
    and "\<forall>d. Status d = StatusWaitPassthrough \<and> d \<in> set (map snd (deposit_info s0))
             \<longrightarrow> Order_CID ord \<noteq> Some (customer_id d)"
  shows "sweep_inv s0 (processed @ [ord]) s"
  unfolding sweep_inv_def
proof (intro conjI allI impI)
  show "map fst (deposit_info s) = map fst (deposit_info s0)"
    using assms(1) by (simp add: sweep_inv_def)
next
  fix k d assume kd: "map_of (deposit_info s0) k = Some d"
  then have "d \<in> set (map snd (deposit_info s0))"
    using map_of_SomeD [OF kd] by force
  with assms(2) have "Status d = StatusWaitPassthrough \<longrightarrow> Order_CID ord \<noteq> Some (customer_id d)"
    by blast
  moreover from assms(1) kd have "swept_by processed d (map_of (deposit_info s) k)"
    by (simp add: sweep_inv_def)
  ultimately show "swept_by (processed @ [ord]) d (map_of (deposit_info s) k)"
    by (rule swept_skip [rotated])
qed

lemma sweep_inv_hit:
  assumes inv: "sweep_inv s0 processed s" and wk: "well_keyed s0"
    and dist: "distinct (map customer_id (filter (\<lambda>d. Status d = StatusWaitPassthrough) (map snd (deposit_info s0))))"
    and d0: "d0 \<in> set (map snd (deposit_info s0))" "Status d0 = StatusWaitPassthrough"
    and cid: "Order_CID ord = Some (customer_id d0)"
  shows "\<exists>s'. UpdateDepositInfo (DepositID d0) (set_OrderPlaced (Order_OrderID ord)) s
               = (((set_OrderPlaced (Order_OrderID ord) d0)\<lparr>UpdatedAt := clock s\<rparr>, None), s')
           \<and> sweep_inv s0 (processed @ [ord]) s'"
proof -
  let ?k = "DepositID d0" and ?f = "set_OrderPlaced (Order_OrderID ord)"
  have look0: "map_of (deposit_info s0) ?k = Some d0"
    using wk d0(1) by (rule well_keyed_lookup)
  with inv have "swept_by processed d0 (map_of (deposit_info s) ?k)"
    by (simp add: sweep_inv_def)
  from swept_current [OF this d0(2), of "Order_OrderID ord" "clock s"] obtain c where
    c: "map_of (deposit_info s) ?k = Some c"
    and vt: "valid_transition (Status c) (Status (?f c))"
    and eq: "(?f c)\<lparr>UpdatedAt := clock s\<rparr> = (?f d0)\<lparr>UpdatedAt := clock s\<rparr>"
    by blast
  let ?new = "(?f d0)\<lparr>UpdatedAt := clock s\<rparr>"
  let ?s' = "s\<lparr>deposit_info := alist_put ?k ?new (deposit_info s), clock := clock s + 1\<rparr>"
  have upd: "UpdateDepositInfo ?k ?f s = ((?new, None), ?s')"
    using UpdateDepositInfo_ok [of s ?k c ?f, OF c vt] by (simp only: eq)
  have keys: "map fst (deposit_info s) = map fst (deposit_info s0)"
    using inv by (simp add: sweep_inv_def)
  have "?k \<in> fst ` set (deposit_info s)"
    using c by (metis map_of_SomeD fst_conv image_eqI)
  then have keys': "map fst (deposit_info ?s') = map fst (deposit_info s0)"
    using keys by (simp add: map_fst_alist_put)
  have each: "swept_by (processed @ [ord]) d (map_of (deposit_info ?s') k)"
    if kd: "map_of (deposit_info s0) k = Some d" for k d
  proof (cases "k = ?k")
    case True
    with kd look0 have "d = d0" by simp
    moreover have "map_of (deposit_info ?s') ?k = Some ?new"
      by (simp add: map_of_alist_put)
    ultimately show ?thesis
      using swept_hit [OF d0(2) cid, of processed "clock s"] True by simp
  next
    case False
    have old: "swept_by processed d (map_of (deposit_info s) k)"
      using inv kd by (simp add: sweep_inv_def)
    have same: "map_of (deposit_info ?s') k = map_of (deposit_info s) k"
      using False by (simp add: map_of_alist_put)
    from well_keyed_key [OF wk kd] have dk: "DepositID d = k" and dmem: "d \<in> set (map snd (deposit_info s0))"
      by simp_all
    have "Status d = StatusWaitPassthrough \<longrightarrow> Order_CID ord \<noteq> Some (customer_id d)"
    proof (intro impI notI)
      assume st: "Status d = StatusWaitPassthrough" and "Order_CID ord = Some (customer_id d)"
      with cid have "customer_id d = customer_id d0" by simp
      moreover have "d \<in> set (filter (\<lambda>d. Status d = StatusWaitPassthrough) (map snd (deposit_info s0)))"
        "d0 \<in> set (filter (\<lambda>d. Status d = StatusWaitPassthrough) (map snd (deposit_info s0)))"
        using st dmem d0 by simp_all
      ultimately have "d = d0"
        using dist by (meson distinct_map inj_onD)
      with dk False show False by simp
    qed
    with old show ?thesis
      unfolding same by (rule swept_skip)
  qed
  have "sweep_inv s0 (processed @ [ord]) ?s'"
    unfolding sweep_inv_def using keys' each by blast
  with upd show ?thesis by blast
qed

lemma update_deposit_fields:
  "ticks (snd (update_deposit k f w)) = ticks w"
  "calls (snd (update_deposit k f w)) = calls w"
  "internalDeposits (snd (update_deposit k f w)) = internalDeposits w"
  "timers (snd (update_deposit k f w)) = timers w"
  by (simp_all add: update_deposit_def split: prod.splits)

lemma recoverOrders_inv:
  assumes wk: "well_keyed s0"
    and dist: "distinct (map customer_id (filter (\<lambda>d. Status d = StatusWaitPassthrough) (map snd (deposit_info s0))))"
    and m: "\<forall>c d. m c = Some d \<longleftrightarrow>
              d \<in> set (map snd (deposit_info s0)) \<and> Status d = StatusWaitPassthrough \<and> customer_id d = c"
  shows "sweep_inv s0 processed (store w) \<Longrightarrow>
         \<exists>ups w'. recoverOrders m orders updates w = (Inr ups, w')
            \<and> sweep_inv s0 (processed @ orders) (store w')
            \<and> ticks w' = ticks w \<and> calls w' = calls w \<and> internalDeposits w' = internalDeposits w"
proof (induction orders arbitrary: processed updates w)
  case Nil
  then show ?case by simp
next
  case (Cons ord orders)
  have skip: "\<exists>ups w'. recoverOrders m orders updates w = (Inr ups, w')
            \<and> sweep_inv s0 (processed @ ord # orders) (store w')
            \<and> ticks w' = ticks w \<and> calls w' = calls w \<and> internalDeposits w' = internalDeposits w"
    if "\<forall>d. Status d = StatusWaitPassthrough \<and> d \<in> set (map snd (deposit_info s0))
             \<longrightarrow> Order_CID ord \<noteq> Some (customer_id d)"
  proof -
    have "sweep_inv s0 (processed @ [ord]) (store w)"
      using Cons.prems that by (rule sweep_inv_skip)
    from Cons.IH [OF this, of updates] show ?thesis by simp
  qed
  show ?case
  proof (cases "Order_CID ord")
    case None
    then have "\<forall>d. Status d = StatusWaitPassthrough \<and> d \<in> set (map snd (deposit_info s0))
             \<longrightarrow> Order_CID ord \<noteq> Some (customer_id d)" by simp
    from skip [OF this] None show ?thesis by simp
  next
    case (Some c)
    show ?thesis
    proof (cases "m c")
      case None
      with m have "\<forall>d. Status d = StatusWaitPassthrough \<and> d \<in> set (map snd (deposit_info s0))
             \<longrightarrow> customer_id d \<noteq> c"
        by (metis option.distinct(1))
      with Some have "\<forall>d. Status d = StatusWaitPassthrough \<and> d \<in> set (map snd (deposit_info s0))
             \<longrightarrow> Order_CID ord \<noteq> Some (customer_id d)" by auto
      from skip [OF this] Some None show ?thesis by simp
    next
      case (Some d0)
      with m have d0: "d0 \<in> set (map snd (deposit_info s0))" "Status d0 = StatusWaitPassthrough"
        and c: "customer_id d0 = c" by blast+
      have cid: "Order_CID ord = Some (customer_id d0)"
        using \<open>Order_CID ord = Some c\<close> c by simp
      from sweep_inv_hit [OF Cons.prems wk dist d0 cid] obtain s' where
        upd: "UpdateDepositInfo (DepositID d0) (set_OrderPlaced (Order_OrderID ord)) (store w)
               = (((set_OrderPlaced (Order_OrderID ord) d0)\<lparr>UpdatedAt := clock (store w)\<rparr>, None), s')"
        and inv': "sweep_inv s0 (processed @ [ord]) s'"
        by blast
      let ?w1 = "w\<lparr>store := s'\<rparr>"
      let ?di' = "(set_OrderPlaced (Order_OrderID ord) d0)\<lparr>UpdatedAt := clock (store w)\<rparr>"
      have step: "recoverOrders m (ord # orders) updates w = recoverOrders m orders (updates @ [?di']) ?w1"
        using \<open>Order_CID ord = Some c\<close> Some upd by (simp add: update_deposit_def)
      have "sweep_inv s0 (processed @ [ord]) (store ?w1)" using inv' by simp
      from Cons.IH [OF this, of "updates @ [?di']"] show ?thesis
        unfolding step by simp
    qed
  qed
qed

lemma queueDeposits_enough:
  "length ds \<le> ticks w \<Longrightarrow>
   internalDeposits (queueDeposits ds w) = internalDeposits w @ ds
   \<and> ticks (queueDeposits ds w) = ticks w - length ds
   \<and> store (queueDeposits ds w) = store w \<and> calls (queueDeposits ds w) = calls w"
proof (induction ds arbitrary: w)
  case Nil
  then show ?case by simp
next
  case (Cons d ds)
  then obtain n where n: "ticks w = Suc n" by (cases "ticks w") auto
  let ?w1 = "w\<lparr>ticks := n, internalDeposits := internalDeposits w @ [d]\<rparr>"
  have "length ds \<le> ticks ?w1" using Cons.prems n by simp
  from Cons.IH [OF this] show ?case by (simp add: n)
qed

lemma fixUnrecordedOrders_sweeps:
  assumes wk: "well_keyed (store w)"
    and ne: "\<forall>d \<in> set (records w). Status d = StatusWaitPassthrough \<longrightarrow> customer_id d \<noteq> []"
    and dist: "distinct (map customer_id (filter (\<lambda>d. Status d = StatusWaitPassthrough) (records w)))"
    and orders: "GetOrderByStatus env (calls w) BtcSky StatusAll = Inr orders"
  shows "\<exists>ups w'. fixUnrecordedOrders env w = (Inr ups, w')
            \<and> sweep_inv (store w) orders (store w')
            \<and> ticks w' = ticks w \<and> internalDeposits w' = internalDeposits w
            \<and> calls w' = (if filter (\<lambda>d. Status d = StatusWaitPassthrough) (records w) = []
                           then calls w else Suc (calls w))"
proof (cases "filter (\<lambda>d. Status d = StatusWaitPassthrough) (records w) = []")
  case True
  have none: "\<not> recovered_by orders d" if "map_of (deposit_info (store w)) k = Some d" for k d
  proof -
    from map_of_SomeD [OF that] have "d \<in> set (records w)" by (force simp: records_def)
    with True show ?thesis by (auto simp: recovered_by_def filter_empty_conv)
  qed
  have "sweep_inv (store w) orders (store w)"
    unfolding sweep_inv_def swept_by_def using none by auto
  moreover have "fixUnrecordedOrders env w = (Inr [], w)"
    using True by (simp add: fixUnrecordedOrders_def GetDepositInfoArray_def records_def)
  ultimately show ?thesis using True by simp
next
  case False
  define ds where "ds = filter (\<lambda>d. Status d = StatusWaitPassthrough) (records w)"
  have gda: "GetDepositInfoArray (\<lambda>di. Status di = StatusWaitPassthrough) (store w) = Inr ds"
    by (simp add: GetDepositInfoArray_def records_def ds_def)
  have dsne: "length ds \<noteq> 0" using False by (simp add: ds_def)
  have mem: "d \<in> set ds \<longleftrightarrow> d \<in> set (map snd (deposit_info (store w))) \<and> Status d = StatusWaitPassthrough" for d
    by (auto simp: ds_def records_def)
  have "\<forall>d \<in> set ds. customer_id d \<noteq> []" using ne by (simp add: ds_def)
  moreover have "distinct (map customer_id ds)" using dist by (simp add: ds_def)
  ultimately obtain m where
    b: "build_cidToDeposits ds Map.empty = Inr m"
    and ch: "\<forall>c d. m c = Some d \<longleftrightarrow>
                 (d \<in> set ds \<and> customer_id d = c) \<or> (c \<notin> customer_id ` set ds \<and> Map.empty c = Some d)"
    using build_cidToDeposits_ok [of ds Map.empty] by blast
  from ch have m: "\<forall>c d. m c = Some d \<longleftrightarrow>
              d \<in> set (map snd (deposit_info (store w))) \<and> Status d = StatusWaitPassthrough \<and> customer_id d = c"
    by (simp add: mem)
  let ?w1 = "w\<lparr>calls := Suc (calls w)\<rparr>"
  have fx: "fixUnrecordedOrders env w = recoverOrders m orders [] ?w1"
    unfolding fixUnrecordedOrders_def gda using dsne b orders by simp
  have "sweep_inv (store w) [] (store ?w1)" by (simp add: sweep_inv_start)
  from recoverOrders_inv [OF wk dist [unfolded records_def] m this, of orders "[]"]
  obtain ups w' where "recoverOrders m orders [] ?w1 = (Inr ups, w')"
    "sweep_inv (store w) orders (store w')" "ticks w' = ticks w" "calls w' = Suc (calls w)"
    "internalDeposits w' = internalDeposits w"
    by auto
  then show ?thesis using False unfolding fx by simp
qed

lemma length_filter_disjoint:
  "(\<And>x. \<not> (P x \<and> Q x)) \<Longrightarrow> length (filter P xs) + length (filter Q xs) \<le> length xs"
  by (induction xs) auto

lemma alist_by_keys:
  "distinct (map fst kvs) \<Longrightarrow> map snd kvs = map (\<lambda>k. the (map_of kvs k)) (map fst kvs)"
proof (induction kvs)
  case Nil
  then show ?case by simp
next
  case (Cons kv kvs)
  obtain k v where kv: "kv = (k, v)" by (cases kv)
  from Cons.prems kv have k: "k \<notin> fst ` set kvs" and d: "distinct (map fst kvs)" by simp_all
  have "map (\<lambda>k'. the (map_of (kv # kvs) k')) (map fst kvs) = map (\<lambda>k'. the (map_of kvs k')) (map fst kvs)"
    using k kv by (intro map_cong) (auto simp: image_iff)
  with Cons.IH [OF d] show ?case by (simp add: kv)
qed

lemma set_OrderPlaced_record:
  "(set_OrderPlaced a d)\<lparr>UpdatedAt := t\<rparr>
     = d\<lparr>Status := StatusWaitPassthroughOrderComplete,
         Passthrough := (Passthrough d)\<lparr>Order := (Order (Passthrough d))\<lparr>OrderID := Sprint_int a\<rparr>\<rparr>,
         UpdatedAt := t\<rparr>"
  by (simp add: set_OrderPlaced_def)

lemma swept_by_swept: "swept_by orders d cur \<Longrightarrow> swept orders d cur"
  by (simp only: swept_by_def swept_def set_OrderPlaced_record)

lemma swept_unchanged:
  assumes "swept orders d cur" "\<not> recovered_by orders d"
  shows "cur = Some d"
  using assms by (simp add: swept_def)

lemma swept_recovered:
  assumes "swept orders d cur" "recovered_by orders d"
  shows "\<exists>d' ord. cur = Some d' \<and> ord \<in> set orders \<and> Order_CID ord = Some (customer_id d)
           \<and> Status d' = StatusWaitPassthroughOrderComplete
           \<and> OrderID (Order (Passthrough d')) = Sprint_int (Order_OrderID ord)
           \<and> customer_id d' = customer_id d \<and> DepositID d' = DepositID d"
proof -
  from assms have "\<exists>ord t. ord \<in> set orders \<and> Order_CID ord = Some (customer_id d)
             \<and> cur = Some (d\<lparr>Status := StatusWaitPassthroughOrderComplete,
                              Passthrough := (Passthrough d)
                                \<lparr>Order := (Order (Passthrough d))
                                   \<lparr>OrderID := Sprint_int (Order_OrderID ord)\<rparr>\<rparr>,
                              UpdatedAt := t\<rparr>)"
    by (simp only: swept_def if_True)
  then obtain ord where "\<exists>t. ord \<in> set orders \<and> Order_CID ord = Some (customer_id d)
             \<and> cur = Some (d\<lparr>Status := StatusWaitPassthroughOrderComplete,
                              Passthrough := (Passthrough d)
                                \<lparr>Order := (Order (Passthrough d))
                                   \<lparr>OrderID := Sprint_int (Order_OrderID ord)\<rparr>\<rparr>,
                              UpdatedAt := t\<rparr>)" ..
  then obtain t where ord: "ord \<in> set orders" "Order_CID ord = Some (customer_id d)"
    and cur: "cur = Some (d\<lparr>Status := StatusWaitPassthroughOrderComplete,
                              Passthrough := (Passthrough d)
                                \<lparr>Order := (Order (Passthrough d))
                                   \<lparr>OrderID := Sprint_int (Order_OrderID ord)\<rparr>\<rparr>,
                              UpdatedAt := t\<rparr>)"
    by (elim exE conjE)
  let ?d' = "d\<lparr>Status := StatusWaitPassthroughOrderComplete,
                Passthrough := (Passthrough d)
                  \<lparr>Order := (Order (Passthrough d))\<lparr>OrderID := Sprint_int (Order_OrderID ord)\<rparr>\<rparr>,
                UpdatedAt := t\<rparr>"
  have "Status ?d' = StatusWaitPassthroughOrderComplete"
    "OrderID (Order (Passthrough ?d')) = Sprint_int (Order_OrderID ord)"
    "customer_id ?d' = customer_id d" "DepositID ?d' = DepositID d"
    by (simp_all add: customer_id_def)
  with cur ord show ?thesis by blast
qed

text \<open>
  Claim C3. Let the store be keyed by \<open>DepositID\<close>, let every deposit at
  \<open>StatusWaitPassthrough\<close> carry a customer identifier of its own, let the exchange answer
  the request \<open>GetOrderByStatus(BtcSky, StatusAll)\<close> with \<open>orders\<close>, and let the quit
  channel stay open while the stored deposits are queued. Then \<open>Run\<close> gets through its
  startup without an error, and afterwards: every deposit that was at
  \<open>StatusWaitPassthrough\<close> and whose customer identifier is the \<open>CID\<close> of one of the
  orders is stored with \<open>Status = StatusWaitPassthroughOrderComplete\<close> and with
  \<open>Passthrough.Order.OrderID\<close> the text of the \<open>OrderID\<close> of such an order, and is
  otherwise (but for \<open>UpdatedAt\<close>) as before; every other record, and so the effect of an
  order with no \<open>CID\<close> or with a \<open>CID\<close> that matches no such deposit, is unchanged; no
  record is added or removed; and the internal queue has received every record now at
  \<open>StatusWaitPassthroughOrderComplete\<close>, followed by every record still at
  \<open>StatusWaitPassthrough\<close>.
\<close>

theorem startup_sweep_recovers_orders:
  assumes "well_keyed (store w)"
    and "\<forall>d \<in> set (records w). Status d = StatusWaitPassthrough \<longrightarrow> customer_id d \<noteq> []"
    and "distinct (map customer_id (filter (\<lambda>d. Status d = StatusWaitPassthrough) (records w)))"
    and "GetOrderByStatus env (calls w) BtcSky StatusAll = Inr orders"
    and "length (records w) \<le> ticks w"
  shows "\<exists>w'. Run env w = (None, w')
           \<and> map fst (deposit_info (store w')) = map fst (deposit_info (store w))
           \<and> (\<forall>k d. stored_deposit w k = Some d \<longrightarrow> swept orders d (stored_deposit w' k))
           \<and> (\<forall>k d. stored_deposit w k = Some d \<and> recovered_by orders d \<longrightarrow>
                 (\<exists>d' ord. stored_deposit w' k = Some d' \<and> ord \<in> set orders
                    \<and> Order_CID ord = Some (customer_id d)
                    \<and> Status d' = StatusWaitPassthroughOrderComplete
                    \<and> OrderID (Order (Passthrough d')) = Sprint_int (Order_OrderID ord)
                    \<and> customer_id d' = customer_id d \<and> DepositID d' = DepositID d))
           \<and> (\<forall>k d. stored_deposit w k = Some d \<and> \<not> recovered_by orders d \<longrightarrow>
                 stored_deposit w' k = Some d)
           \<and> internalDeposits w'
               = internalDeposits w
                 @ filter (\<lambda>d. Status d = StatusWaitPassthroughOrderComplete) (records w')
                 @ filter (\<lambda>d. Status d = StatusWaitPassthrough) (records w')"
proof -
  from fixUnrecordedOrders_sweeps [OF assms(1-4)] obtain ups w1 where
    fx: "fixUnrecordedOrders env w = (Inr ups, w1)"
    and inv: "sweep_inv (store w) orders (store w1)"
    and t1: "ticks w1 = ticks w" and q1: "internalDeposits w1 = internalDeposits w"
    by blast
  define oc where "oc = filter (\<lambda>d. Status d = StatusWaitPassthroughOrderComplete) (records w1)"
  define wp where "wp = filter (\<lambda>d. Status d = StatusWaitPassthrough) (records w1)"
  have g1: "GetDepositInfoArray (\<lambda>di. Status di = StatusWaitPassthrough) (store w1) = Inr wp"
    and g2: "GetDepositInfoArray (\<lambda>di. Status di = StatusWaitPassthroughOrderComplete) (store w1) = Inr oc"
    by (simp_all add: GetDepositInfoArray_def records_def wp_def oc_def)
  have keys: "map fst (deposit_info (store w1)) = map fst (deposit_info (store w))"
    using inv by (simp add: sweep_inv_def)
  then have "length (records w1) = length (records w)"
    unfolding records_def by (metis length_map)
  moreover have "length oc + length wp \<le> length (records w1)"
    unfolding oc_def wp_def by (rule length_filter_disjoint) simp
  ultimately have len: "length oc + length wp \<le> ticks w1"
    using assms(5) t1 by simp
  let ?w2 = "queueDeposits oc w1"
  have a: "internalDeposits ?w2 = internalDeposits w1 @ oc" "ticks ?w2 = ticks w1 - length oc"
    "store ?w2 = store w1"
    using queueDeposits_enough [of oc w1] len by simp_all
  let ?w3 = "queueDeposits wp ?w2"
  have b: "internalDeposits ?w3 = internalDeposits ?w2 @ wp" "store ?w3 = store ?w2"
    using queueDeposits_enough [of wp ?w2] len a(2) by simp_all
  have run: "Run env w = (None, ?w3)"
    by (simp add: Run_def fx g1 g2)
  have recs: "records ?w3 = records w1"
    using a(3) b(2) by (simp add: records_def)
  have "internalDeposits ?w3 = internalDeposits w
          @ filter (\<lambda>d. Status d = StatusWaitPassthroughOrderComplete) (records ?w3)
          @ filter (\<lambda>d. Status d = StatusWaitPassthrough) (records ?w3)"
    unfolding recs using a(1) b(1) q1 by (simp add: oc_def wp_def)
  moreover have "map fst (deposit_info (store ?w3)) = map fst (deposit_info (store w))"
    using keys a(3) b(2) by simp
  moreover have sw: "\<forall>k d. stored_deposit w k = Some d \<longrightarrow> swept orders d (stored_deposit ?w3 k)"
    using inv a(3) b(2) by (simp add: sweep_inv_def stored_deposit_def swept_by_swept)
  moreover have "\<forall>k d. stored_deposit w k = Some d \<and> recovered_by orders d \<longrightarrow>
                 (\<exists>d' ord. stored_deposit ?w3 k = Some d' \<and> ord \<in> set orders
                    \<and> Order_CID ord = Some (customer_id d)
                    \<and> Status d' = StatusWaitPassthroughOrderComplete
                    \<and> OrderID (Order (Passthrough d')) = Sprint_int (Order_OrderID ord)
                    \<and> customer_id d' = customer_id d \<and> DepositID d' = DepositID d)"
    using sw swept_recovered by blast
  moreover have "\<forall>k d. stored_deposit w k = Some d \<and> \<not> recovered_by orders d \<longrightarrow>
                 stored_deposit ?w3 k = Some d"
    using sw swept_unchanged by blast
  ultimately show ?thesis using run by blast
qed

lemma sweep_deposit_fields:
  "Status unrecorded_deposit = StatusWaitPassthrough" "DepositID unrecorded_deposit = ''v:1''"
  "customer_id unrecorded_deposit = ''v:1''"
  "Status unmatched_deposit = StatusWaitPassthrough" "DepositID unmatched_deposit = ''z:0''"
  "customer_id unmatched_deposit = ''z:0''"
  "customer_id example_deposit = ''t:2''"
  by (simp_all add: unrecorded_deposit_def unmatched_deposit_def DepositInfo_zero_def customer_id_def
        example_deposit_fields)

lemma sweep_world_fields:
  "records sweep_world = [example_deposit, unrecorded_deposit, unmatched_deposit]"
  "map fst (deposit_info (store sweep_world)) = [''t:2'', ''v:1'', ''z:0'']"
  "stored_deposit sweep_world ''t:2'' = Some example_deposit"
  "stored_deposit sweep_world ''v:1'' = Some unrecorded_deposit"
  "stored_deposit sweep_world ''z:0'' = Some unmatched_deposit"
  "ticks sweep_world = 10" "calls sweep_world = 0" "internalDeposits sweep_world = []"
  by (simp_all add: sweep_world_def records_def stored_deposit_def)

lemma sweep_world_well_keyed: "well_keyed (store sweep_world)"
  by (simp add: well_keyed_def sweep_world_def example_deposit_fields sweep_deposit_fields)

lemma sweep_orders_cids:
  "ord \<in> set sweep_orders \<Longrightarrow> Order_CID ord = Some c \<Longrightarrow>
     c = ''w:9'' \<and> Order_OrderID ord = 6 \<or> c = ''v:1'' \<and> Order_OrderID ord = 7"
  by (auto simp: sweep_orders_def)

lemma Sprint_7: "Sprint_int 7 = ''7''"
  by (simp add: Sprint_int_def nat_digits.simps)

theorem startup_sweep_recovers_orders_witness:
  "\<exists>w' d'. Run sweep_env sweep_world = (None, w')
     \<and> stored_deposit w' ''t:2'' = Some example_deposit
     \<and> stored_deposit w' ''v:1'' = Some d'
     \<and> Status d' = StatusWaitPassthroughOrderComplete
     \<and> OrderID (Order (Passthrough d')) = ''7''
     \<and> CustomerID (Order (Passthrough d')) = ''v:1''
     \<and> DepositID d' = ''v:1''
     \<and> stored_deposit w' ''z:0'' = Some unmatched_deposit
     \<and> internalDeposits w' = [example_deposit, d', unmatched_deposit]"
proof -
  have "\<exists>w'. Run sweep_env sweep_world = (None, w')
           \<and> map fst (deposit_info (store w')) = map fst (deposit_info (store sweep_world))
           \<and> (\<forall>k d. stored_deposit sweep_world k = Some d \<longrightarrow> swept sweep_orders d (stored_deposit w' k))
           \<and> (\<forall>k d. stored_deposit sweep_world k = Some d \<and> recovered_by sweep_orders d \<longrightarrow>
                 (\<exists>d' ord. stored_deposit w' k = Some d' \<and> ord \<in> set sweep_orders
                    \<and> Order_CID ord = Some (customer_id d)
                    \<and> Status d' = StatusWaitPassthroughOrderComplete
                    \<and> OrderID (Order (Passthrough d')) = Sprint_int (Order_OrderID ord)
                    \<and> customer_id d' = customer_id d \<and> DepositID d' = DepositID d))
           \<and> (\<forall>k d. stored_deposit sweep_world k = Some d \<and> \<not> recovered_by sweep_orders d \<longrightarrow>
                 stored_deposit w' k = Some d)
           \<and> internalDeposits w'
               = internalDeposits sweep_world
                 @ filter (\<lambda>d. Status d = StatusWaitPassthroughOrderComplete) (records w')
                 @ filter (\<lambda>d. Status d = StatusWaitPassthrough) (records w')"
  proof (rule startup_sweep_recovers_orders)
    show "well_keyed (store sweep_world)" by (rule sweep_world_well_keyed)
    show "\<forall>d \<in> set (records sweep_world). Status d = StatusWaitPassthrough \<longrightarrow> customer_id d \<noteq> []"
      by (simp add: sweep_world_fields sweep_deposit_fields)
    show "distinct (map customer_id (filter (\<lambda>d. Status d = StatusWaitPassthrough) (records sweep_world)))"
      by (simp add: sweep_world_fields sweep_deposit_fields example_deposit_fields)
    show "GetOrderByStatus sweep_env (calls sweep_world) BtcSky StatusAll = Inr sweep_orders"
      by (simp add: sweep_env_def)
    show "length (records sweep_world) \<le> ticks sweep_world"
      by (simp add: sweep_world_fields)
  qed
  then obtain w' where run: "Run sweep_env sweep_world = (None, w')"
    and keys: "map fst (deposit_info (store w')) = [''t:2'', ''v:1'', ''z:0'']"
    and hit: "\<And>k d. stored_deposit sweep_world k = Some d \<Longrightarrow> recovered_by sweep_orders d \<Longrightarrow>
                 (\<exists>d' ord. stored_deposit w' k = Some d' \<and> ord \<in> set sweep_orders
                    \<and> Order_CID ord = Some (customer_id d)
                    \<and> Status d' = StatusWaitPassthroughOrderComplete
                    \<and> OrderID (Order (Passthrough d')) = Sprint_int (Order_OrderID ord)
                    \<and> customer_id d' = customer_id d \<and> DepositID d' = DepositID d)"
    and miss: "\<And>k d. stored_deposit sweep_world k = Some d \<Longrightarrow> \<not> recovered_by sweep_orders d \<Longrightarrow>
                 stored_deposit w' k = Some d"
    and q: "internalDeposits w'
               = filter (\<lambda>d. Status d = StatusWaitPassthroughOrderComplete) (records w')
                 @ filter (\<lambda>d. Status d = StatusWaitPassthrough) (records w')"
    by (auto simp: sweep_world_fields)
  have "\<not> recovered_by sweep_orders example_deposit"
    by (simp add: recovered_by_def example_deposit_fields)
  with sweep_world_fields(3) have r1: "stored_deposit w' ''t:2'' = Some example_deposit"
    by (rule miss)
  have "\<not> recovered_by sweep_orders unmatched_deposit"
    using sweep_orders_cids by (fastforce simp: recovered_by_def sweep_deposit_fields)
  with sweep_world_fields(5) have r3: "stored_deposit w' ''z:0'' = Some unmatched_deposit"
    by (rule miss)
  have "recovered_by sweep_orders unrecorded_deposit"
    by (simp add: recovered_by_def sweep_deposit_fields sweep_orders_def)
  with sweep_world_fields(4) have "\<exists>d' ord. stored_deposit w' ''v:1'' = Some d' \<and> ord \<in> set sweep_orders
                    \<and> Order_CID ord = Some (customer_id unrecorded_deposit)
                    \<and> Status d' = StatusWaitPassthroughOrderComplete
                    \<and> OrderID (Order (Passthrough d')) = Sprint_int (Order_OrderID ord)
                    \<and> customer_id d' = customer_id unrecorded_deposit
                    \<and> DepositID d' = DepositID unrecorded_deposit"
    by (rule hit)
  then obtain d' ord where r2: "stored_deposit w' ''v:1'' = Some d'"
    and ord: "ord \<in> set sweep_orders" "Order_CID ord = Some ''v:1''"
    and d': "Status d' = StatusWaitPassthroughOrderComplete"
      "OrderID (Order (Passthrough d')) = Sprint_int (Order_OrderID ord)"
      "customer_id d' = ''v:1''" "DepositID d' = ''v:1''"
    by (auto simp: sweep_deposit_fields)
  from ord sweep_orders_cids have "Order_OrderID ord = 7" by fastforce
  with d'(2) have oid: "OrderID (Order (Passthrough d')) = ''7''"
    by (simp add: Sprint_7)
  have "distinct (map fst (deposit_info (store w')))" by (simp add: keys)
  from alist_by_keys [OF this]
  have recs: "records w' = [example_deposit, d', unmatched_deposit]"
    using r1 r2 r3 by (simp add: records_def keys stored_deposit_def)
  have "internalDeposits w' = [example_deposit, d', unmatched_deposit]"
    unfolding q recs by (simp add: example_deposit_fields sweep_deposit_fields d'(1))
  with run r1 r2 r3 d'(1,3,4) oid show ?thesis
    unfolding customer_id_def by blast
qed

section \<open>The receiver's acknowledgement\<close>

lemma receive_deposits_acks:
  "map fst (acks (receive_deposits getOrCreate rates dvs r)) = map fst (acks r) @ dvs"
proof (induction dvs arbitrary: r)
  case Nil
  then show ?case by simp
next
  case (Cons dv dvs)
  have "map fst (acks (receive_deposit getOrCreate rates dv r)) = map fst (acks r) @ [dv]"
    by (simp add: receive_deposit_def split: prod.splits option.splits)
  with Cons.IH [of "receive_deposit getOrCreate rates dv r"] show ?case by simp
qed

text \<open>
  Claim C8. For every scanner event the receiver takes, what it posts on the event's
  acknowledgement channel is the outcome of the store's \<open>GetOrCreateDepositInfo\<close>: no error
  exactly when the store succeeded, and the store's error otherwise. When the store
  succeeded the record is emitted; when it failed nothing is emitted, so the event is
  not queued again, and the log gets the entry that says the deposit is not reprocessed
  until a restart. Whatever happens to one event, every event of a sequence is taken and
  acknowledged once, in order.
\<close>

theorem receiver_acknowledges_store_outcome:
  "acks (receive_deposit getOrCreate rates dv r)
     = acks r @ [(dv, snd (fst (getOrCreate dv (rates (Deposit_CoinType dv)) (receiver_store r))))]
   \<and> (snd (fst (getOrCreate dv (rates (Deposit_CoinType dv)) (receiver_store r))) = None \<longrightarrow>
        emitted (receive_deposit getOrCreate rates dv r)
          = emitted r @ [fst (fst (getOrCreate dv (rates (Deposit_CoinType dv)) (receiver_store r)))]
        \<and> receiver_log (receive_deposit getOrCreate rates dv r) = receiver_log r)
   \<and> (snd (fst (getOrCreate dv (rates (Deposit_CoinType dv)) (receiver_store r))) \<noteq> None \<longrightarrow>
        emitted (receive_deposit getOrCreate rates dv r) = emitted r
        \<and> receiver_log (receive_deposit getOrCreate rates dv r)
            = receiver_log r @ [(saveIncomingDeposit_failed, dv)])
   \<and> map fst (acks (receive_deposits getOrCreate rates dvs r)) = map fst (acks r) @ dvs"
proof -
  obtain di e s where g: "getOrCreate dv (rates (Deposit_CoinType dv)) (receiver_store r) = ((di, e), s)"
    by (metis surj_pair)
  show ?thesis
    unfolding g using receive_deposits_acks [of getOrCreate rates dvs r]
    by (cases e) (simp_all add: receive_deposit_def g)
qed

lemma Sprint_small: "Sprint_int 0 = ''0''" "Sprint_int 2 = ''2''"
  by (simp_all add: Sprint_int_def nat_digits.simps)

lemma unbound_deposit_fails:
  "GetOrCreateDepositInfo unbound_deposit (direct_rates (Deposit_CoinType unbound_deposit))
     (receiver_store fresh_receiver) = ((DepositInfo_zero, Some ErrNoBoundAddress), direct_store)"
  by (simp add: GetOrCreateDepositInfo_def fresh_receiver_def direct_store_def unbound_deposit_def)

theorem receiver_acknowledges_store_outcome_witness:
  "acks (receive_deposit GetOrCreateDepositInfo direct_rates unbound_deposit fresh_receiver)
     = [(unbound_deposit, Some ErrNoBoundAddress)]
   \<and> emitted (receive_deposit GetOrCreateDepositInfo direct_rates unbound_deposit fresh_receiver) = []
   \<and> receiver_log (receive_deposit GetOrCreateDepositInfo direct_rates unbound_deposit fresh_receiver)
       = [(saveIncomingDeposit_failed, unbound_deposit)]
   \<and> map fst (acks (receive_deposits GetOrCreateDepositInfo direct_rates
         [unbound_deposit, direct_deposit] fresh_receiver))
       = [unbound_deposit, direct_deposit]"
  using receiver_acknowledges_store_outcome
    [of GetOrCreateDepositInfo direct_rates unbound_deposit fresh_receiver "[unbound_deposit, direct_deposit]"]
  unfolding unbound_deposit_fails
  by (simp add: fresh_receiver_def)

section \<open>The direct path\<close>

lemma direct_created:
  assumes "Address dv = ''btc-a''"
  shows "GetOrCreateDepositInfo dv rate direct_store
     = ((DepositInfo_zero
           \<lparr>Seq := 1, UpdatedAt := 500, Status := StatusWaitSend, CoinType := ''BTC'',
            SkyAddress := ''sky-a'', DepositAddress := ''btc-a'', DepositID := TxN dv,
            ConversionRate := rate, DepositValue := Value dv, Deposit := dv\<rparr>, None),
        direct_store\<lparr>deposit_info := [(TxN dv, DepositInfo_zero
           \<lparr>Seq := 1, UpdatedAt := 500, Status := StatusWaitSend, CoinType := ''BTC'',
            SkyAddress := ''sky-a'', DepositAddress := ''btc-a'', DepositID := TxN dv,
            ConversionRate := rate, DepositValue := Value dv, Deposit := dv\<rparr>)],
          deposit_info_seq := 1, clock := 501\<rparr>)"
  using assms
  by (simp add: GetOrCreateDepositInfo_def direct_store_def initial_status_def BuyMethodDirect_def Let_def)

lemma calculateSkyValue_one_btc: "calculateSkyValue 100000000 100 m = 100000000"
proof -
  have "\<lfloor>(100::rat) * 10 ^ nat m\<rfloor> = 100 * 10 ^ nat m"
    by (metis floor_of_int of_int_numeral of_int_power of_int_mult)
  then show ?thesis
    by (simp add: calculateSkyValue_def SatoshisPerBTC_def droplet_Multiplier_def Let_def)
qed

lemma calculateSkyValue_formula:
  "calculateSkyValue v r m
     = \<lfloor>(of_int \<lfloor>of_int v / 10 ^ 8 * r * 10 ^ nat m\<rfloor> :: rat) / 10 ^ nat m * 10 ^ 6\<rfloor>"
  by (simp add: calculateSkyValue_def SatoshisPerBTC_def droplet_Multiplier_def Let_def)

lemma sender_submit_disabled:
  "Status di = StatusWaitSend \<Longrightarrow> \<not> SendEnabled (sender_cfg sdr) \<Longrightarrow>
   sender_submit sdr di s = ((di, None), s)"
  by (simp add: sender_submit_def)

text \<open>
  Claim C9. The deposit address \<open>btc-a\<close> is bound to \<open>sky-a\<close> for direct buying; the
  scanner reports a deposit to it; the configured rate is read by the rate parser as the
  number \<open>r\<close>; sending is enabled. Then the record created has \<open>Status = StatusWaitSend\<close>
  and the configured rate. The amount to send is the deposit value in BTC (satoshis
  divided by \<open>10 ^ 8\<close>) times \<open>r\<close>, cut off after \<open>max_decimals\<close> decimals, in droplets
  (times \<open>10 ^ 6\<close>); when it is not zero and the wallet sender accepts it for \<open>sky-a\<close> and
  returns \<open>txid\<close>, the record holds \<open>txid\<close> at \<open>StatusWaitConfirm\<close>; and when the
  transaction is reported confirmed the record is at \<open>StatusDone\<close> with \<open>SkySent\<close> that
  amount. For \<open>10 ^ 8\<close> satoshis at rate 100 the amount is \<open>100 * 10 ^ 6\<close> droplets. A
  sender with sending disabled leaves the created record where it is.
\<close>

theorem direct_happy_path:
  assumes "Address dv = ''btc-a''"
    and "ParseRate sdr rate = Inr r"
    and "BuyMethod (sender_cfg sdr) = BuyMethodDirect"
    and "SendEnabled (sender_cfg sdr)"
    and "amount = \<lfloor>(of_int \<lfloor>of_int (Value dv) / 10 ^ 8 * r * 10 ^ nat (MaxDecimals (sender_cfg sdr))\<rfloor> :: rat)
                     / 10 ^ nat (MaxDecimals (sender_cfg sdr)) * 10 ^ 6\<rfloor>"
    and "amount \<noteq> 0"
    and "Send sdr ''sky-a'' amount = Inr txid"
    and "IsTxConfirmed sdr txid = Inr True"
  shows "\<exists>created s1 sent s2 final s3.
      GetOrCreateDepositInfo dv rate direct_store = ((created, None), s1)
    \<and> Status created = StatusWaitSend \<and> ConversionRate created = rate
    \<and> DepositID created = TxN dv
    \<and> sender_submit sdr created s1 = ((sent, None), s2)
    \<and> Txid sent = txid \<and> Status sent = StatusWaitConfirm
    \<and> map_of (deposit_info s2) (TxN dv) = Some sent
    \<and> sender_confirm sdr sent s2 = ((final, None), s3)
    \<and> Status final = StatusDone \<and> SkySent final = amount \<and> Txid final = txid
    \<and> ConversionRate final = rate
    \<and> map_of (deposit_info s3) (TxN dv) = Some final
    \<and> (Value dv = 100000000 \<and> r = 100 \<longrightarrow> SkySent final = 100000000)
    \<and> (\<forall>off. \<not> SendEnabled (sender_cfg off) \<longrightarrow> sender_submit off created s1 = ((created, None), s1))"
proof -
  define created where "created = DepositInfo_zero
           \<lparr>Seq := 1, UpdatedAt := 500, Status := StatusWaitSend, CoinType := ''BTC'',
            SkyAddress := ''sky-a'', DepositAddress := ''btc-a'', DepositID := TxN dv,
            ConversionRate := rate, DepositValue := Value dv, Deposit := dv\<rparr>"
  define s1 where "s1 = direct_store\<lparr>deposit_info := [(TxN dv, created)],
          deposit_info_seq := 1, clock := 501\<rparr>"
  have c: "GetOrCreateDepositInfo dv rate direct_store = ((created, None), s1)"
    unfolding created_def s1_def using assms(1) by (rule direct_created)
  have cf: "Status created = StatusWaitSend" "ConversionRate created = rate"
    "SkySent created = 0" "Value (Deposit created) = Value dv" "SkyAddress created = ''sky-a''"
    "DepositID created = TxN dv"
    by (simp_all add: created_def DepositInfo_zero_def)
  have look1: "map_of (deposit_info s1) (TxN dv) = Some created"
    by (simp add: s1_def)
  have am: "amount = calculateSkyValue (Value dv) r (MaxDecimals (sender_cfg sdr))"
    using assms(5) by (simp only: calculateSkyValue_formula)
  have amount: "send_amount sdr created = Inr amount"
    using assms(2,3)
    by (simp add: send_amount_def cf am BuyMethodDirect_def BuyMethodPassthrough_def)
  let ?f = "\<lambda>d. d\<lparr>Status := StatusWaitConfirm, Txid := txid, SkySent := amount\<rparr>"
  define sent where "sent = (?f created)\<lparr>UpdatedAt := clock s1\<rparr>"
  define s2 where "s2 = s1\<lparr>deposit_info := alist_put (TxN dv) sent (deposit_info s1), clock := clock s1 + 1\<rparr>"
  have "valid_transition (Status created) (Status (?f created))"
    by (simp add: valid_transition_def cf)
  from UpdateDepositInfo_ok [of s1 "TxN dv" created ?f, OF look1 this]
  have u1: "UpdateDepositInfo (TxN dv) ?f s1 = ((sent, None), s2)"
    by (simp add: sent_def s2_def)
  have sub: "sender_submit sdr created s1 = ((sent, None), s2)"
    using assms(4,6,7) by (simp add: sender_submit_def cf amount u1)
  have sf: "Txid sent = txid" "Status sent = StatusWaitConfirm" "SkySent sent = amount"
    "DepositID sent = TxN dv" "ConversionRate sent = rate"
    by (simp_all add: sent_def cf)
  have look2: "map_of (deposit_info s2) (TxN dv) = Some sent"
    by (simp add: s2_def map_of_alist_put)
  let ?g = "\<lambda>d. d\<lparr>Status := StatusDone\<rparr>"
  define final where "final = (?g sent)\<lparr>UpdatedAt := clock s2\<rparr>"
  define s3 where "s3 = s2\<lparr>deposit_info := alist_put (TxN dv) final (deposit_info s2), clock := clock s2 + 1\<rparr>"
  have "valid_transition (Status sent) (Status (?g sent))"
    by (simp add: valid_transition_def sf)
  from UpdateDepositInfo_ok [of s2 "TxN dv" sent ?g, OF look2 this]
  have u2: "UpdateDepositInfo (TxN dv) ?g s2 = ((final, None), s3)"
    by (simp add: final_def s3_def)
  have conf: "sender_confirm sdr sent s2 = ((final, None), s3)"
    using assms(8) by (simp add: sender_confirm_def sf u2)
  have ff: "Status final = StatusDone" "SkySent final = amount" "Txid final = txid"
    "ConversionRate final = rate"
    by (simp_all add: final_def sf)
  have look3: "map_of (deposit_info s3) (TxN dv) = Some final"
    by (simp add: s3_def map_of_alist_put)
  have scen: "Value dv = 100000000 \<and> r = 100 \<longrightarrow> SkySent final = 100000000"
    using am by (simp add: ff calculateSkyValue_one_btc)
  have off: "\<forall>off. \<not> SendEnabled (sender_cfg off) \<longrightarrow> sender_submit off created s1 = ((created, None), s1)"
    using cf(1) by (simp add: sender_submit_disabled)
  from c cf(1,2,6) sub sf(1,2) look2 conf ff look3 scen off show ?thesis by blast
qed

lemma direct_deposit_fields:
  "Address direct_deposit = ''btc-a''" "Value direct_deposit = 100000000"
  "TxN direct_deposit = ''t:2''"
  by (simp_all add: direct_deposit_def TxN_def Sprint_small)

lemma direct_sender_fields:
  "ParseRate direct_sender ''100'' = Inr 100"
  "BuyMethod (sender_cfg direct_sender) = BuyMethodDirect"
  "SendEnabled (sender_cfg direct_sender)"
  "MaxDecimals (sender_cfg direct_sender) = 3"
  "Send direct_sender ''sky-a'' 100000000 = Inr ''sky-txid''"
  "IsTxConfirmed direct_sender ''sky-txid'' = Inr True"
  by (simp_all add: direct_sender_def example_cfg_def BuyMethodDirect_def)

theorem direct_happy_path_witness:
  "\<exists>created s1 sent s2 final s3.
      GetOrCreateDepositInfo direct_deposit ''100'' direct_store = ((created, None), s1)
    \<and> Status created = StatusWaitSend \<and> ConversionRate created = ''100''
    \<and> sender_submit direct_sender created s1 = ((sent, None), s2)
    \<and> Txid sent = ''sky-txid'' \<and> Status sent = StatusWaitConfirm
    \<and> map_of (deposit_info s2) ''t:2'' = Some sent
    \<and> sender_confirm direct_sender sent s2 = ((final, None), s3)
    \<and> Status final = StatusDone \<and> SkySent final = 100000000 \<and> Txid final = ''sky-txid''
    \<and> ConversionRate final = ''100''
    \<and> map_of (deposit_info s3) ''t:2'' = Some final"
proof -
  have am: "(100000000::int) = \<lfloor>(of_int \<lfloor>of_int (Value direct_deposit) / 10 ^ 8 * (100::rat)
                  * 10 ^ nat (MaxDecimals (sender_cfg direct_sender))\<rfloor> :: rat)
                     / 10 ^ nat (MaxDecimals (sender_cfg direct_sender)) * 10 ^ 6\<rfloor>"
    using calculateSkyValue_one_btc [of 3, symmetric]
    by (simp only: calculateSkyValue_formula direct_deposit_fields direct_sender_fields)
  from direct_happy_path [of direct_deposit direct_sender "''100''" 100 100000000 "''sky-txid''",
      OF direct_deposit_fields(1) direct_sender_fields(1,2,3) am _ direct_sender_fields(5,6)]
  obtain created s1 sent s2 final s3 where
      "GetOrCreateDepositInfo direct_deposit ''100'' direct_store = ((created, None), s1)"
      "Status created = StatusWaitSend" "ConversionRate created = ''100''"
      "sender_submit direct_sender created s1 = ((sent, None), s2)"
      "Txid sent = ''sky-txid''" "Status sent = StatusWaitConfirm"
      "map_of (deposit_info s2) (TxN direct_deposit) = Some sent"
      "sender_confirm direct_sender sent s2 = ((final, None), s3)"
      "Status final = StatusDone" "SkySent final = 100000000" "Txid final = ''sky-txid''"
      "ConversionRate final = ''100''"
      "map_of (deposit_info s3) (TxN direct_deposit) = Some final"
    by auto
  then show ?thesis
    unfolding direct_deposit_fields by blast
qed

end
